theory Spec2Isabelle
  imports Main "HOL-Library.Multiset"
begin

section \<open>Data model (db.js)\<close>

text \<open>
  The collection \<open>utmClicks\<close> is a list of documents in insertion (natural) order.
  The schema declares no \<open>_id\<close> path, so the driver gives every document an
  \<open>ObjectId\<close>: twelve bytes, here the number they spell. An id is generated by the
  driver (when a document is created with an undefined \<open>_id\<close>) or cast from a string
  of 24 hex digits; any other string does not cast, and the call that carries it
  throws before it reaches the store. Times are milliseconds as integers.
  \<open>original_params\<close> (an open mapping) and the driver's \<open>createdAt\<close>/\<open>updatedAt\<close>
  are left out: no handler's write or query depends on them. The store itself is
  reliable: a call that reaches it fails only where the unique index on \<open>_id\<close>
  rejects a duplicate.
\<close>

datatype docid = Oid nat

record doc =
  d_id :: docid
  source :: string
  medium :: string
  campaign :: string
  content :: string
  placement :: string
  hasEngaged :: bool
  phoneNumber :: "string option"
  contactId :: "string option"
  conversationId :: "string option"
  contactName :: "string option"
  lastMessage :: "string option"
  attribution_source :: string
  timestamp :: int
  engagedAt :: "int option"
  click_time :: int
  syncedToSheets :: bool
  lastSynced :: "int option"
  full_url :: "string option"

text \<open>
  The defaults of \<open>utmClickSchema\<close>; \<open>timestamp\<close> and \<open>click_time\<close> default to
  \<open>Date.now\<close>.
\<close>

definition schema_default :: "docid \<Rightarrow> int \<Rightarrow> doc" where
  "schema_default i t =
     \<lparr> d_id = i, source = ''direct_message'', medium = ''whatsapp'',
       campaign = ''organic'', content = ''none'', placement = ''N/A'',
       hasEngaged = False, phoneNumber = None, contactId = None,
       conversationId = None, contactName = None, lastMessage = None,
       attribution_source = ''unknown'', timestamp = t, engagedAt = None,
       click_time = t, syncedToSheets = False, lastSynced = None, full_url = None \<rparr>"

subsection \<open>JavaScript truthiness of optional strings\<close>

text \<open>\<open>None\<close> is \<open>undefined\<close>/\<open>null\<close>; the empty string is falsy as well.\<close>

fun truthy :: "string option \<Rightarrow> bool" where
  "truthy None = False"
| "truthy (Some s) = (s \<noteq> [])"

text \<open>\<open>a || b\<close> on optional strings.\<close>

definition js_or :: "string option \<Rightarrow> string option \<Rightarrow> string option" where
  "js_or a b = (if truthy a then a else b)"

subsection \<open>Strings that name a document\<close>

text \<open>
  The handler's \<open>sessionId\<close> is a string: \<open>Sid s\<close> is a string that came with the
  request or was synthesized, \<open>Rid i\<close> is \<open>i.toString()\<close>, the 24 hex digits of a
  stored id (never empty, never \<open>not_stored\<close>).
\<close>

datatype sessionid = Sid string | Rid docid

text \<open>\<open>!sessionId\<close>.\<close>

fun truthy_id :: "sessionid option \<Rightarrow> bool" where
  "truthy_id None = False"
| "truthy_id (Some (Sid s)) = (s \<noteq> [])"
| "truthy_id (Some (Rid i)) = True"

text \<open>
  The cast of a string to an \<open>ObjectId\<close>: exactly 24 hex digits, upper or lower case,
  read as a number; \<open>None\<close> is the cast failure. The string form of an id casts
  back to it. (Older versions of the driver also read a string of twelve characters
  as twelve raw bytes; here it is a string like any other, and no statement below
  depends on the difference.)
\<close>

definition hex_digit :: "char \<Rightarrow> nat option" where
  "hex_digit c =
     map_of [(CHR ''0'', 0), (CHR ''1'', 1), (CHR ''2'', 2), (CHR ''3'', 3), (CHR ''4'', 4),
             (CHR ''5'', 5), (CHR ''6'', 6), (CHR ''7'', 7), (CHR ''8'', 8), (CHR ''9'', 9),
             (CHR ''a'', 10), (CHR ''b'', 11), (CHR ''c'', 12), (CHR ''d'', 13),
             (CHR ''e'', 14), (CHR ''f'', 15),
             (CHR ''A'', 10), (CHR ''B'', 11), (CHR ''C'', 12), (CHR ''D'', 13),
             (CHR ''E'', 14), (CHR ''F'', 15)] c"

fun hex_value :: "nat \<Rightarrow> string \<Rightarrow> nat option" where
  "hex_value a [] = Some a"
| "hex_value a (c # cs) =
     (case hex_digit c of
        None \<Rightarrow> None
      | Some v \<Rightarrow> hex_value (16 * a + v) cs)"

fun castObjectId :: "sessionid \<Rightarrow> docid option" where
  "castObjectId (Rid i) = Some i"
| "castObjectId (Sid s) =
     (if length s = 24 then map_option Oid (hex_value 0 s) else None)"

subsection \<open>Store operations (the Mongoose calls the handlers make)\<close>

text \<open>\<open>findOne(filter)\<close> without a sort: the first match in natural order.\<close>

definition findOne :: "(doc \<Rightarrow> bool) \<Rightarrow> doc list \<Rightarrow> doc option" where
  "findOne p ds = List.find p ds"

text \<open>What a call can throw.\<close>

datatype error = CastError | ValidationError | DuplicateKey

text \<open>
  \<open>findById(id)\<close>: \<open>findById(undefined)\<close> is \<open>findOne({_id: null})\<close>, which no
  document satisfies; a string that does not cast throws \<open>CastError\<close>.
\<close>

fun findById :: "sessionid option \<Rightarrow> doc list \<Rightarrow> error + doc option" where
  "findById None ds = Inr None"
| "findById (Some s) ds =
     (case castObjectId s of
        None \<Rightarrow> Inl CastError
      | Some i \<Rightarrow> Inr (List.find (\<lambda>d. d_id d = i) ds))"

text \<open>
  \<open>.sort({timestamp: -1}).limit(1)\<close>: the newest document, the earliest inserted
  one among equally new ones.
\<close>

fun newest :: "doc list \<Rightarrow> doc option" where
  "newest [] = None"
| "newest (d # ds) =
     (case newest ds of
        None \<Rightarrow> Some d
      | Some e \<Rightarrow> if timestamp d \<ge> timestamp e then Some d else Some e)"

definition findNewest :: "(doc \<Rightarrow> bool) \<Rightarrow> doc list \<Rightarrow> doc option" where
  "findNewest p ds = newest (filter p ds)"

text \<open>
  \<open>findByIdAndUpdate(id, update)\<close>, for an id that has cast: the first document with
  that id is updated.
\<close>

fun findByIdAndUpdate :: "docid \<Rightarrow> (doc \<Rightarrow> doc) \<Rightarrow> doc list \<Rightarrow> doc list" where
  "findByIdAndUpdate i f [] = []"
| "findByIdAndUpdate i f (d # ds) =
     (if d_id d = i then f d # ds else d # findByIdAndUpdate i f ds)"

text \<open>
  \<open>create(doc)\<close>, once the document has been built and validated: the unique index
  on \<open>_id\<close> rejects a duplicate.
\<close>

definition create :: "doc \<Rightarrow> doc list \<Rightarrow> error + doc list" where
  "create d ds = (if d_id d \<in> d_id ` set ds then Inl DuplicateKey else Inr (ds @ [d]))"

text \<open>
  The \<open>_id\<close> of a document under construction. With \<open>_id: undefined\<close> the driver
  keeps the identifier it generated itself, one that no document of the collection
  has; a string is cast, and one that does not cast fails validation.
\<close>

fun oid_bound :: "doc list \<Rightarrow> nat" where
  "oid_bound [] = 0"
| "oid_bound (d # ds) =
     max (case d_id d of Oid n \<Rightarrow> Suc n) (oid_bound ds)"

definition new_oid :: "doc list \<Rightarrow> docid" where
  "new_oid ds = Oid (oid_bound ds)"

fun document_id :: "sessionid option \<Rightarrow> doc list \<Rightarrow> error + docid" where
  "document_id None ds = Inr (new_oid ds)"
| "document_id (Some s) ds =
     (case castObjectId s of
        None \<Rightarrow> Inl ValidationError
      | Some i \<Rightarrow> Inr i)"

section \<open>Inbound message webhook (server.js)\<close>

text \<open>
  The context token of an event: \<open>None\<close> when \<open>event.context\<close> is absent or empty,
  \<open>Some Undecodable\<close> when base64/JSON decoding throws, \<open>Some (Token c)\<close> when it
  parses. \<open>c\<close> holds \<open>session_id\<close> and the keys of the parsed object that are
  schema paths and survive the spreads of the handler (\<open>_id\<close>, the five UTM
  dimensions, \<open>contactName\<close>, \<open>lastSynced\<close>, \<open>click_time\<close>, \<open>full_url\<close>), each
  \<open>None\<close> when the parsed value has no such key (or is not an object). Values are
  strings, and times where the path is a date; a token whose value does not cast to
  its path's type is outside the model.
\<close>

record ctx =
  session_id :: "string option"
  c_id :: "string option"
  c_source :: "string option"
  c_medium :: "string option"
  c_campaign :: "string option"
  c_content :: "string option"
  c_placement :: "string option"
  c_contactName :: "string option"
  c_lastSynced :: "int option"
  c_click_time :: "int option"
  c_full_url :: "string option"

datatype token = Undecodable | Token ctx

text \<open>
  The fields of the request body that the handler reads, in the order of the record:
  \<open>channelNumber\<close>, \<open>whatsapp.from\<close>, \<open>contactId\<close>, \<open>contact.id\<close>,
  \<open>conversationId\<close>, \<open>contact.name\<close>, \<open>whatsapp.text.body\<close>,
  \<open>whatsapp.interactive.list_reply.title\<close> and \<open>context\<close>.
\<close>

record event =
  channelNumber :: "string option"
  whatsapp_from :: "string option"
  ev_contactId :: "string option"
  contact_id :: "string option"
  ev_conversationId :: "string option"
  contact_name :: "string option"
  text_body :: "string option"
  list_reply_title :: "string option"
  ev_context :: "token option"

text \<open>
  What the handler reads from its environment: the clock (\<open>Date.now()\<close>, held fixed
  during one request), the eight characters taken from \<open>crypto.randomUUID()\<close>, and
  the two configuration variables.
\<close>

record env =
  now :: int
  uuid8 :: string
  STORE_DIRECT_MESSAGES :: bool
  WHATSAPP_NUMBER :: "string option"

text \<open>\<open>utmData\<close>: the literal default, the parsed context, or a stored document.\<close>

datatype utmData = UtmDefault | UtmContext ctx | UtmDoc doc

fun utm_source :: "utmData \<Rightarrow> string option" where
  "utm_source UtmDefault = Some ''direct_message''"
| "utm_source (UtmContext c) = c_source c"
| "utm_source (UtmDoc d) = Some (source d)"

definition opt_default :: "string option \<Rightarrow> string \<Rightarrow> string" where
  "opt_default v d = (case v of None \<Rightarrow> d | Some s \<Rightarrow> s)"

text \<open>
  The object literal \<open>{_id: sessionId, ...utmData, ...}\<close>: a key of \<open>utmData\<close>
  overrides the one written before it. \<open>utm_id\<close> is the \<open>_id\<close> the literal ends
  with, \<open>spread_utm i\<close> the document it gives under the id \<open>i\<close> that \<open>_id\<close> cast
  to, once the schema defaults are applied.
\<close>

fun utm_id :: "sessionid option \<Rightarrow> utmData \<Rightarrow> sessionid option" where
  "utm_id sid UtmDefault = sid"
| "utm_id sid (UtmContext c) = (case c_id c of None \<Rightarrow> sid | Some s \<Rightarrow> Some (Sid s))"
| "utm_id sid (UtmDoc d) = Some (Rid (d_id d))"

fun spread_utm :: "docid \<Rightarrow> utmData \<Rightarrow> int \<Rightarrow> doc" where
  "spread_utm i UtmDefault t = schema_default i t"
| "spread_utm i (UtmContext c) t =
     (schema_default i t)
       \<lparr> source := opt_default (c_source c) ''direct_message'',
         medium := opt_default (c_medium c) ''whatsapp'',
         campaign := opt_default (c_campaign c) ''organic'',
         content := opt_default (c_content c) ''none'',
         placement := opt_default (c_placement c) ''N/A'',
         contactName := c_contactName c,
         click_time := (case c_click_time c of None \<Rightarrow> t | Some ct \<Rightarrow> ct),
         lastSynced := c_lastSynced c,
         full_url := c_full_url c \<rparr>"
| "spread_utm i (UtmDoc d) t = d\<lparr> d_id := i \<rparr>"

subsection \<open>Identifier extraction and phone normalization (lines 105-133)\<close>

definition is_digit :: "char \<Rightarrow> bool" where
  "is_digit c = (c \<in> set ''0123456789'')"

definition receivingNumber :: "event \<Rightarrow> string" where
  "receivingNumber ev = filter is_digit (opt_default (channelNumber ev) [])"

definition americanHairlineNumber :: "env \<Rightarrow> string" where
  "americanHairlineNumber e =
     (case WHATSAPP_NUMBER e of
        None \<Rightarrow> ''919137279145''
      | Some s \<Rightarrow> if s \<noteq> [] then s else ''919137279145'')"

definition senderPhone :: "event \<Rightarrow> string" where
  "senderPhone ev =
     (case whatsapp_from ev of
        None \<Rightarrow> []
      | Some s \<Rightarrow> dropWhile (\<lambda>c. c = CHR ''0'') s)"

definition startsWith :: "string \<Rightarrow> string \<Rightarrow> bool" where
  "startsWith s p = (take (length p) s = p)"

definition countryCode :: string where
  "countryCode = ''91''"

definition normalizedPhone :: "event \<Rightarrow> string" where
  "normalizedPhone ev =
     (let p = senderPhone ev in
      if p \<noteq> [] \<and> \<not> startsWith p countryCode then countryCode @ p else p)"

definition null_if_falsy :: "string option \<Rightarrow> string option" where
  "null_if_falsy v = (if truthy v then v else None)"

definition contactId_of :: "event \<Rightarrow> string option" where
  "contactId_of ev = null_if_falsy (js_or (ev_contactId ev) (contact_id ev))"

definition conversationId_of :: "event \<Rightarrow> string option" where
  "conversationId_of ev = null_if_falsy (ev_conversationId ev)"

definition contactName_of :: "event \<Rightarrow> string option" where
  "contactName_of ev = null_if_falsy (contact_name ev)"

text \<open>
  \<open>body || (title || 'No text content')\<close>: the placeholder stands in whenever both
  are falsy, so the result is never empty.
\<close>

definition messageContent :: "event \<Rightarrow> string" where
  "messageContent ev =
     opt_default (js_or (text_body ev) (null_if_falsy (list_reply_title ev)))
       ''No text content''"

subsection \<open>Strategy chain (lines 135-245)\<close>

text \<open>
  Every call that reaches the store is recorded, in the order the handler makes it,
  so that which strategies ran is part of the result. A call that throws on a cast
  never reaches the store.
\<close>

datatype db_op =
    FindRecent int
  | UpdateIds docid
  | FindPhone string
  | FindDirect string
  | UpdateDirect docid
  | CreateDirect docid
  | FindById "docid option"
  | UpdateEngaged docid
  | CreateEngaged docid

record mstate =
  sessionId :: "sessionid option"
  utmData :: utmData
  attribution :: string
  store :: "doc list"
  oplog :: "db_op list"

definition initial :: "doc list \<Rightarrow> mstate" where
  "initial ds =
     \<lparr> sessionId = None, utmData = UtmDefault, attribution = ''direct'',
       store = ds, oplog = [] \<rparr>"

text \<open>Priority 1: context parameter. A decode failure is caught and logged.\<close>

definition context_match :: "event \<Rightarrow> mstate \<Rightarrow> mstate" where
  "context_match ev m =
     (case ev_context ev of
        None \<Rightarrow> m
      | Some Undecodable \<Rightarrow> m
      | Some (Token c) \<Rightarrow>
          (case session_id c of
             None \<Rightarrow> m
           | Some s \<Rightarrow>
               if s \<noteq> [] then
                 m\<lparr> sessionId := Some (Sid s), utmData := UtmContext c,
                    attribution := ''context'' \<rparr>
               else m))"

text \<open>Priority 2: Gallabox identifiers, matched to the newest recent unengaged click.\<close>

definition gallabox_id_match :: "env \<Rightarrow> event \<Rightarrow> mstate \<Rightarrow> mstate" where
  "gallabox_id_match e ev m =
     (if \<not> truthy_id (sessionId m)
         \<and> (truthy (contactId_of ev) \<or> truthy (conversationId_of ev)) then
        (let fiveMinutesAgo = now e - 5 * 60 * 1000;
             m1 = m\<lparr> oplog := oplog m @ [FindRecent fiveMinutesAgo] \<rparr>
         in case findNewest (\<lambda>d. \<not> hasEngaged d \<and> timestamp d \<ge> fiveMinutesAgo)
                   (store m) of
              None \<Rightarrow> m1
            | Some recentClick \<Rightarrow>
                m1\<lparr> sessionId := Some (Rid (d_id recentClick)),
                    utmData := UtmDoc recentClick,
                    attribution := ''gallabox_id_match'',
                    store := findByIdAndUpdate (d_id recentClick)
                      (\<lambda>d. d\<lparr> contactId := contactId_of ev,
                              conversationId := conversationId_of ev,
                              contactName := contactName_of ev \<rparr>) (store m),
                    oplog := oplog m1 @ [UpdateIds (d_id recentClick)] \<rparr>)
      else m)"

text \<open>Priority 3: phone number.\<close>

definition phone_query :: "string \<Rightarrow> doc \<Rightarrow> bool" where
  "phone_query p d = (phoneNumber d = Some p \<and> \<not> hasEngaged d)"

definition phone_match :: "event \<Rightarrow> mstate \<Rightarrow> mstate" where
  "phone_match ev m =
     (if \<not> truthy_id (sessionId m) then
        (let m1 = m\<lparr> oplog := oplog m @ [FindPhone (normalizedPhone ev)] \<rparr>
         in case findNewest (phone_query (normalizedPhone ev)) (store m) of
              None \<Rightarrow> m1
            | Some phoneMatch \<Rightarrow>
                m1\<lparr> sessionId := Some (Rid (d_id phoneMatch)),
                    utmData := UtmDoc phoneMatch,
                    attribution := ''phone_match'' \<rparr>)
      else m)"

text \<open>Decimal rendering of \<open>Date.now()\<close> inside the template literal.\<close>

definition digit_char :: "nat \<Rightarrow> char" where
  "digit_char n = char_of (48 + n)"

function dec_nat :: "nat \<Rightarrow> string" where
  "dec_nat n =
     (if n < 10 then [digit_char n] else dec_nat (n div 10) @ [digit_char (n mod 10)])"
  by pat_completeness auto
termination
  by (relation "measure id") auto

definition dec_int :: "int \<Rightarrow> string" where
  "dec_int i = (if i < 0 then CHR ''-'' # dec_nat (nat (- i)) else dec_nat (nat i))"

text \<open>
  Direct message handling (lines 204-245). \<open>Inl\<close> is the state at which
  \<open>UtmClick.create\<close> threw (the synthesized id does not cast, or the index rejected
  the document); the handler's \<open>catch\<close> turns it into a 500 response.
\<close>

definition direct_handling :: "env \<Rightarrow> event \<Rightarrow> mstate \<Rightarrow> mstate + mstate" where
  "direct_handling e ev m =
     (if \<not> truthy_id (sessionId m) then
        (case conversationId_of ev of
           None \<Rightarrow> Inr m
         | Some cv \<Rightarrow>
            (let m1 = m\<lparr> oplog := oplog m @ [FindDirect cv] \<rparr>
             in case findOne (\<lambda>d. conversationId d = Some cv
                                  \<and> source d = ''direct_message'') (store m) of
                  Some existingDirect \<Rightarrow>
                    Inr (m1\<lparr> sessionId := Some (Rid (d_id existingDirect)),
                             attribution := ''existing_direct'',
                             store := findByIdAndUpdate (d_id existingDirect)
                               (\<lambda>d. d\<lparr> lastMessage := Some (messageContent ev),
                                       engagedAt := Some (now e) \<rparr>) (store m),
                             oplog := oplog m1 @ [UpdateDirect (d_id existingDirect)] \<rparr>)
                | None \<Rightarrow>
                    if STORE_DIRECT_MESSAGES e then
                      (let sid = Sid (''direct-'' @ dec_int (now e) @ ''-'' @ uuid8 e);
                           m2 = m1\<lparr> sessionId := Some sid, attribution := ''new_direct'' \<rparr>
                       in case document_id (utm_id (Some sid) (utmData m)) (store m) of
                            Inl err \<Rightarrow> Inl m2
                          | Inr i \<Rightarrow>
                             (let newdoc = (spread_utm i (utmData m) (now e))
                                    \<lparr> timestamp := now e, hasEngaged := True,
                                      phoneNumber := Some (normalizedPhone ev),
                                      lastMessage := Some (messageContent ev),
                                      engagedAt := Some (now e), syncedToSheets := False,
                                      contactId := contactId_of ev,
                                      conversationId := conversationId_of ev,
                                      contactName := contactName_of ev \<rparr>;
                                  m3 = m2\<lparr> oplog := oplog m2 @ [CreateDirect i] \<rparr>
                              in case create newdoc (store m) of
                                   Inl err \<Rightarrow> Inl m3
                                 | Inr ds \<Rightarrow> Inr (m3\<lparr> store := ds \<rparr>)))
                    else
                      Inr (m1\<lparr> attribution := ''ignored_direct'',
                               sessionId := Some (Sid ''not_stored'') \<rparr>)))
      else Inr m)"

definition strategy_chain :: "env \<Rightarrow> event \<Rightarrow> doc list \<Rightarrow> mstate + mstate" where
  "strategy_chain e ev ds =
     direct_handling e ev
       (phone_match ev (gallabox_id_match e ev (context_match ev (initial ds))))"

subsection \<open>Engagement update (lines 248-274)\<close>

text \<open>
  \<open>updateData\<close> as the change it makes to a document: \<open>contactName\<close> and
  \<open>lastMessage\<close> are spread in only when truthy, the other keys always.
\<close>

definition updateData :: "env \<Rightarrow> event \<Rightarrow> string \<Rightarrow> doc \<Rightarrow> doc" where
  "updateData e ev attr d =
     d\<lparr> hasEngaged := True,
        phoneNumber := Some (normalizedPhone ev),
        engagedAt := Some (now e),
        syncedToSheets := False,
        attribution_source := attr,
        contactId := contactId_of ev,
        conversationId := conversationId_of ev,
        contactName := (if truthy (contactName_of ev) then contactName_of ev
                        else contactName d),
        lastMessage := (if messageContent ev \<noteq> [] then Some (messageContent ev)
                        else lastMessage d) \<rparr>"

text \<open>
  The upsert. \<open>Inl\<close> is the state at which a call threw: \<open>findById\<close> on a string
  that does not cast, or \<open>create\<close> on an \<open>_id\<close> that does not cast or is taken.
\<close>

definition engagement_update :: "env \<Rightarrow> event \<Rightarrow> mstate \<Rightarrow> mstate + mstate" where
  "engagement_update e ev m =
     (if attribution m \<noteq> ''new_direct'' \<and> sessionId m \<noteq> Some (Sid ''not_stored'') then
        (case findById (sessionId m) (store m) of
           Inl err \<Rightarrow> Inl m
         | Inr found \<Rightarrow>
            (let m1 = m\<lparr> oplog := oplog m
                          @ [FindById (case sessionId m of
                                         None \<Rightarrow> None
                                       | Some s \<Rightarrow> castObjectId s)] \<rparr>
             in case found of
                  Some existingDoc \<Rightarrow>
                    Inr (m1\<lparr> store := findByIdAndUpdate (d_id existingDoc)
                                         (updateData e ev (attribution m)) (store m),
                             oplog := oplog m1 @ [UpdateEngaged (d_id existingDoc)] \<rparr>)
                | None \<Rightarrow>
                    (case document_id (utm_id (sessionId m) (utmData m)) (store m) of
                       Inl err \<Rightarrow> Inl m1
                     | Inr i \<Rightarrow>
                        (let newdoc = (updateData e ev (attribution m)
                                         (spread_utm i (utmData m) (now e)))
                                        \<lparr> timestamp := now e \<rparr>;
                             m2 = m1\<lparr> oplog := oplog m1 @ [CreateEngaged i] \<rparr>
                         in case create newdoc (store m) of
                              Inl err \<Rightarrow> Inl m2
                            | Inr ds \<Rightarrow> Inr (m2\<lparr> store := ds \<rparr>)))))
      else Inr m)"

subsection \<open>The handler\<close>

datatype response =
    Skipped
  | MissingPhone
  | Processed "sessionid option" "string option" string
  | ProcessingFailed

record outcome =
  status :: nat
  body :: response
  final_store :: "doc list"
  ops :: "db_op list"

definition gallabox_webhook :: "env \<Rightarrow> event \<Rightarrow> doc list \<Rightarrow> outcome" where
  "gallabox_webhook e ev ds =
     (if receivingNumber ev \<noteq> americanHairlineNumber e then
        \<lparr> status = 200, body = Skipped, final_store = ds, ops = [] \<rparr>
      else if normalizedPhone ev = [] then
        \<lparr> status = 400, body = MissingPhone, final_store = ds, ops = [] \<rparr>
      else
        (case strategy_chain e ev ds of
           Inl m \<Rightarrow>
             \<lparr> status = 500, body = ProcessingFailed, final_store = store m,
               ops = oplog m \<rparr>
         | Inr m \<Rightarrow>
            (case engagement_update e ev m of
               Inl m' \<Rightarrow>
                 \<lparr> status = 500, body = ProcessingFailed, final_store = store m',
                   ops = oplog m' \<rparr>
             | Inr m' \<Rightarrow>
                 \<lparr> status = 200,
                   body = Processed (sessionId m') (utm_source (utmData m')) (attribution m'),
                   final_store = store m', ops = oplog m' \<rparr>)))"

section \<open>Click ingestion (server.js, /store-click)\<close>

text \<open>
  The request body: \<open>session_id\<close>, the keys of \<open>original_params\<close> that are read
  (\<open>p_\<close>) and the same keys at top level (\<open>r_\<close>, the rest of the body).
\<close>

record click_req =
  cr_session_id :: "string option"
  p_source :: "string option"
  p_medium :: "string option"
  p_campaign :: "string option"
  p_content :: "string option"
  p_placement :: "string option"
  r_source :: "string option"
  r_medium :: "string option"
  r_campaign :: "string option"
  r_content :: "string option"
  r_placement :: "string option"

definition store_click :: "int \<Rightarrow> click_req \<Rightarrow> doc list \<Rightarrow> nat \<times> doc list" where
  "store_click t rq ds =
     (let sid = map_option Sid (cr_session_id rq) in
      case findById sid ds of
        Inl err \<Rightarrow> (500, ds)
      | Inr (Some existing) \<Rightarrow> (201, ds)
      | Inr None \<Rightarrow>
         (case document_id sid ds of
            Inl err \<Rightarrow> (500, ds)
          | Inr i \<Rightarrow>
             (let newdoc = (schema_default i t)
                    \<lparr> source := opt_default (js_or (p_source rq) (null_if_falsy (r_source rq)))
                                 ''facebook'',
                      medium := opt_default (js_or (p_medium rq) (null_if_falsy (r_medium rq)))
                                 ''fb_ads'',
                      campaign := opt_default
                                    (js_or (p_campaign rq) (null_if_falsy (r_campaign rq)))
                                    ''unknown'',
                      content := opt_default
                                   (js_or (p_content rq) (null_if_falsy (r_content rq)))
                                   ''unknown'',
                      placement := opt_default
                                     (js_or (p_placement rq) (null_if_falsy (r_placement rq)))
                                     ''unknown'',
                      click_time := t, timestamp := t, hasEngaged := False,
                      syncedToSheets := False \<rparr>
              in case create newdoc ds of
                   Inl err \<Rightarrow> (500, ds)
                 | Inr ds' \<Rightarrow> (201, ds'))))"

section \<open>Export to the sheet (google-sheets-sync.js)\<close>

text \<open>
  The sheet service is outside the program: each call to it may throw. One attempt
  sees a \<open>sink\<close>: which calls throw, what the two reads return, and the clock.
\<close>

datatype stage = Init | GetSpreadsheet | AddSheet | GetHeader | SetHeader | Append

record sink =
  fails :: "stage \<Rightarrow> bool"
  sheet_exists :: bool
  header_present :: bool
  s_now :: int

datatype sync_ev =
    ApiCall stage
  | Selected "docid list"
  | Appended "docid list"
  | MarkSynced docid
  | Sleep nat

datatype attempt_result = Done nat | Threw stage

type_synonym attempt_out = "attempt_result \<times> doc list \<times> sync_ev list"

text \<open>A call to the sheet service: it is logged, then it throws or the rest runs.\<close>

definition api :: "sink \<Rightarrow> stage \<Rightarrow> doc list \<Rightarrow> sync_ev list
    \<Rightarrow> (sync_ev list \<Rightarrow> attempt_out) \<Rightarrow> attempt_out" where
  "api k s ds l cont =
     (if fails k s then (Threw s, ds, l @ [ApiCall s]) else cont (l @ [ApiCall s]))"

text \<open>The selection query of the batch export (lines 159-165).\<close>

definition eligible :: "doc \<Rightarrow> bool" where
  "eligible d = (hasEngaged d \<and> \<not> syncedToSheets d \<and> source d \<noteq> ''direct_message'')"

definition sort_newest_first :: "doc list \<Rightarrow> doc list" where
  "sort_newest_first ds = sort_key (\<lambda>d. - timestamp d) ds"

definition select_batch :: "doc list \<Rightarrow> doc list" where
  "select_batch ds = take 250 (sort_newest_first (filter eligible ds))"

definition mark_synced :: "int \<Rightarrow> doc list \<Rightarrow> docid \<Rightarrow> doc list" where
  "mark_synced t ds i =
     findByIdAndUpdate i (\<lambda>d. d\<lparr> syncedToSheets := True, lastSynced := Some t \<rparr>) ds"

text \<open>The body of the \<open>try\<close> block of \<open>syncToSheets\<close> (lines 101-201).\<close>

definition sync_attempt :: "sink \<Rightarrow> doc list \<Rightarrow> attempt_out" where
  "sync_attempt k ds =
     api k Init ds [] (\<lambda>l.
     api k GetSpreadsheet ds l (\<lambda>l.
     (if sheet_exists k then (\<lambda>cont. cont l) else api k AddSheet ds l) (\<lambda>l.
     api k GetHeader ds l (\<lambda>l.
     (if header_present k then (\<lambda>cont. cont l) else api k SetHeader ds l) (\<lambda>l.
       (let documents = select_batch ds;
            l1 = l @ [Selected (map d_id documents)]
        in if length documents = 0 then (Done 0, ds, l1)
           else
             api k Append ds l1 (\<lambda>l.
               (Done (length documents),
                foldl (mark_synced (s_now k)) ds (map d_id documents),
                l @ [Appended (map d_id documents)]
                  @ map MarkSynced (map d_id documents)))))))))"

text \<open>
  The retry loop (lines 94-215). \<open>ks n\<close> is what the attempt made with
  \<open>attempt = n\<close> sees. Falling out of the \<open>while\<close> returns \<open>undefined\<close>.
\<close>

definition MAX_RETRIES :: nat where
  "MAX_RETRIES = 3"

datatype sync_outcome = Returned nat | ReturnedUndefined | FinalSyncFailure stage

function syncToSheets_from ::
    "(nat \<Rightarrow> sink) \<Rightarrow> nat \<Rightarrow> doc list \<Rightarrow> sync_ev list
      \<Rightarrow> sync_outcome \<times> doc list \<times> sync_ev list" where
  "syncToSheets_from ks attempt ds l =
     (if attempt < MAX_RETRIES then
        (case sync_attempt (ks attempt) ds of
           (Done n, ds', l') \<Rightarrow> (Returned n, ds', l @ l')
         | (Threw s, ds', l') \<Rightarrow>
             (if attempt + 1 \<ge> MAX_RETRIES then (FinalSyncFailure s, ds', l @ l')
              else syncToSheets_from ks (attempt + 1) ds'
                     (l @ l' @ [Sleep ((attempt + 1) * 2000)])))
      else (ReturnedUndefined, ds, l))"
  by pat_completeness auto
termination
  by (relation "measure (\<lambda>(ks, attempt, ds, l). MAX_RETRIES - attempt)")
     (auto simp: MAX_RETRIES_def)

definition syncToSheets ::
    "(nat \<Rightarrow> sink) \<Rightarrow> doc list \<Rightarrow> sync_outcome \<times> doc list \<times> sync_ev list" where
  "syncToSheets ks ds = syncToSheets_from ks 0 ds []"

text \<open>The change-stream listener of \<open>setupRealtimeSync\<close> (lines 260-302).\<close>

datatype operationType = insert | update | other

record change =
  operation :: operationType
  fullDocument :: "doc option"

definition realtime_change :: "sink \<Rightarrow> change \<Rightarrow> doc list \<Rightarrow> doc list \<times> sync_ev list" where
  "realtime_change k ch ds =
     (if operation ch \<noteq> insert \<and> operation ch \<noteq> update then (ds, [])
      else
        (case fullDocument ch of
           None \<Rightarrow> (ds, [])
         | Some d \<Rightarrow>
             if fails k Init then (ds, [ApiCall Init])
             else if fails k Append then (ds, [ApiCall Init, ApiCall Append])
             else (mark_synced (s_now k) ds (d_id d),
                   [ApiCall Init, ApiCall Append, Appended [d_id d],
                    MarkSynced (d_id d)])))"

section \<open>The system as a transition relation on the collection\<close>

inductive step :: "doc list \<Rightarrow> doc list \<Rightarrow> bool" where
  click: "step ds (snd (store_click t rq ds))"
| message: "step ds (final_store (gallabox_webhook e ev ds))"
| batch: "step ds (fst (snd (syncToSheets ks ds)))"
| realtime: "step ds (fst (realtime_change k ch ds))"

definition reachable :: "doc list \<Rightarrow> bool" where
  "reachable ds = step\<^sup>*\<^sup>* [] ds"

section \<open>Definitions used to state the properties\<close>

subsection \<open>The strategy chain in the specification's words\<close>

text \<open>The session identifier that a decodable context token carries, if any.\<close>

definition context_sid :: "event \<Rightarrow> string option" where
  "context_sid ev =
     (case ev_context ev of
        Some (Token c) \<Rightarrow> null_if_falsy (session_id c)
      | _ \<Rightarrow> None)"

definition recent_click :: "env \<Rightarrow> doc list \<Rightarrow> doc option" where
  "recent_click e ds =
     findNewest (\<lambda>d. \<not> hasEngaged d \<and> timestamp d \<ge> now e - 5 * 60 * 1000) ds"





text \<open>The matcher state a run of the chain ends in, whether or not it threw.\<close>

definition chain_state :: "mstate + mstate \<Rightarrow> mstate" where
  "chain_state r = (case r of Inl m \<Rightarrow> m | Inr m \<Rightarrow> m)"

subsection \<open>The record-update step as a function on the collection\<close>

text \<open>
  The engagement update for a fixed input (environment, event, matched id, snapshot
  and attribution): the collection it leaves, whether it returned or threw.
\<close>

definition update_step ::
    "env \<Rightarrow> event \<Rightarrow> sessionid option \<Rightarrow> utmData \<Rightarrow> string \<Rightarrow> doc list \<Rightarrow> doc list" where
  "update_step e ev sid utm attr ds =
     store (chain_state (engagement_update e ev
       \<lparr> sessionId = sid, utmData = utm, attribution = attr, store = ds, oplog = [] \<rparr>))"

subsection \<open>Reading the export log\<close>

text \<open>
  Every \<open>MarkSynced i\<close> of a log comes after an \<open>Appended\<close> event that holds \<open>i\<close>;
  \<open>S\<close> is the set of ids appended before the log starts.
\<close>

fun append_before_mark :: "docid set \<Rightarrow> sync_ev list \<Rightarrow> bool" where
  "append_before_mark S [] = True"
| "append_before_mark S (Appended ids # l) = append_before_mark (S \<union> set ids) l"
| "append_before_mark S (MarkSynced i # l) = (i \<in> S \<and> append_before_mark S l)"
| "append_before_mark S (ApiCall s # l) = append_before_mark S l"
| "append_before_mark S (Selected ids # l) = append_before_mark S l"
| "append_before_mark S (Sleep n # l) = append_before_mark S l"

text \<open>The ids a log appends, and the ones it marks.\<close>

fun appended_ids :: "sync_ev list \<Rightarrow> docid set" where
  "appended_ids [] = {}"
| "appended_ids (Appended ids # l) = set ids \<union> appended_ids l"
| "appended_ids (ApiCall s # l) = appended_ids l"
| "appended_ids (Selected ids # l) = appended_ids l"
| "appended_ids (MarkSynced i # l) = appended_ids l"
| "appended_ids (Sleep n # l) = appended_ids l"

fun marked_ids :: "sync_ev list \<Rightarrow> docid list" where
  "marked_ids [] = []"
| "marked_ids (MarkSynced i # l) = i # marked_ids l"
| "marked_ids (ApiCall s # l) = marked_ids l"
| "marked_ids (Selected ids # l) = marked_ids l"
| "marked_ids (Appended ids # l) = marked_ids l"
| "marked_ids (Sleep n # l) = marked_ids l"

text \<open>
  The schedule of a run: the start of each attempt (its first call,
  \<open>initializeSheetsClient\<close>) and each wait, in order.
\<close>

fun schedule :: "sync_ev list \<Rightarrow> sync_ev list" where
  "schedule [] = []"
| "schedule (ApiCall Init # l) = ApiCall Init # schedule l"
| "schedule (Sleep n # l) = Sleep n # schedule l"
| "schedule (e # l) = schedule l"

text \<open>The outcome of the attempt made with \<open>attempt = n\<close> on collection \<open>ds\<close>.\<close>

definition attempt_outcome :: "(nat \<Rightarrow> sink) \<Rightarrow> nat \<Rightarrow> doc list \<Rightarrow> attempt_result" where
  "attempt_outcome ks n ds = fst (sync_attempt (ks n) ds)"

subsection \<open>How the operations change the collection\<close>

text \<open>
  A field update that keeps the id, never clears \<open>hasEngaged\<close>, and never leaves a
  phone number on a record that is not engaged.
\<close>

definition phone_implies_engaged :: "doc \<Rightarrow> bool" where
  "phone_implies_engaged d = (phoneNumber d \<noteq> None \<longrightarrow> hasEngaged d)"

definition safe_update :: "(doc \<Rightarrow> doc) \<Rightarrow> bool" where
  "safe_update f =
     (\<forall>d. d_id (f d) = d_id d
          \<and> (hasEngaged d \<longrightarrow> hasEngaged (f d))
          \<and> (phone_implies_engaged d \<longrightarrow> phone_implies_engaged (f d)))"

text \<open>
  \<open>evolves ds ds'\<close>: \<open>ds'\<close> comes from \<open>ds\<close> by such updates of single records
  and by appending records.
\<close>

inductive evolves :: "doc list \<Rightarrow> doc list \<Rightarrow> bool" where
  same: "evolves ds ds"
| updated: "evolves ds ds1 \<Longrightarrow> safe_update f \<Longrightarrow> evolves ds (findByIdAndUpdate i f ds1)"
| created: "evolves ds ds1 \<Longrightarrow> phone_implies_engaged d \<Longrightarrow> evolves ds (ds1 @ [d])"

subsection \<open>Concrete inputs\<close>

definition E1 :: env where
  "E1 = \<lparr> now = 1000000, uuid8 = ''abcd1234'', STORE_DIRECT_MESSAGES = False,
          WHATSAPP_NUMBER = None \<rparr>"

text \<open>A token whose session id is the 24 hex digits of the id \<open>Oid 1\<close>.\<close>

definition tok1 :: ctx where
  "tok1 = \<lparr> session_id = Some ''000000000000000000000001'', c_id = None,
          c_source = Some ''instagram'', c_medium = Some ''fb_ads'',
          c_campaign = Some ''unknown'', c_content = None,
          c_placement = Some ''unknown'', c_contactName = None, c_lastSynced = None,
          c_click_time = Some 900000, c_full_url = None \<rparr>"

text \<open>
  The token the landing page mints: its session id is \<open>wa-\<close>, the click time and
  eight hex digits, which is no \<open>ObjectId\<close>.
\<close>

definition tok_wa :: ctx where
  "tok_wa = tok1 \<lparr> session_id := Some ''wa-900000-1a2b3c4d'' \<rparr>"

text \<open>A message from 09876543210 with every identifier and a context token.\<close>

definition EV_ctx :: event where
  "EV_ctx = \<lparr> channelNumber = Some ''+91 91372 79145'', whatsapp_from = Some ''09876543210'',
              ev_contactId = Some ''ct1'', contact_id = None,
              ev_conversationId = Some ''cv1'', contact_name = Some ''Asha'',
              text_body = Some ''Hello!'', list_reply_title = None,
              ev_context = Some (Token tok1) \<rparr>"


text \<open>A message that carries a phone number and nothing else.\<close>

definition EV_bare :: event where
  "EV_bare = \<lparr> channelNumber = Some ''919137279145'', whatsapp_from = Some ''09876543210'',
               ev_contactId = None, contact_id = None, ev_conversationId = None,
               contact_name = None, text_body = None, list_reply_title = None,
               ev_context = None \<rparr>"

text \<open>A message for another number, without a sender.\<close>

definition EV_other :: event where
  "EV_other = EV_bare \<lparr> channelNumber := Some ''123'', whatsapp_from := None \<rparr>"

text \<open>A message for the configured number whose sender is all zeros.\<close>

definition EV_zeros :: event where
  "EV_zeros = EV_bare \<lparr> whatsapp_from := Some ''000'' \<rparr>"

text \<open>A click stored 100 seconds before \<open>E1\<close>'s clock, not yet engaged.\<close>

definition click1 :: doc where
  "click1 = (schema_default (Oid 1) 900000)
              \<lparr> source := ''instagram'', medium := ''fb_ads'', campaign := ''unknown'',
                content := ''unknown'', placement := ''unknown'' \<rparr>"


text \<open>A click older than five minutes at \<open>E1\<close>'s clock.\<close>

definition click_old :: doc where
  "click_old = click1 \<lparr> d_id := Oid 3, timestamp := 100000 \<rparr>"

text \<open>A message that carries a phone number and a contact id only.\<close>

definition EV_contact :: event where
  "EV_contact = EV_bare \<lparr> ev_contactId := Some ''ct1'' \<rparr>"

text \<open>The click \<open>click1\<close> after an earlier message engaged it.\<close>

definition engaged1 :: doc where
  "engaged1 = click1 \<lparr> hasEngaged := True, phoneNumber := Some ''919876543210'',
                contactId := Some ''ct1'', conversationId := Some ''cv1'',
                contactName := Some ''Asha'', lastMessage := Some ''Hello!'',
                attribution_source := ''context'', engagedAt := Some 950000 \<rparr>"

text \<open>
  The request that stores \<open>click1\<close>, and the environment 50 seconds before
  \<open>E1\<close>'s clock, at which \<open>EV_ctx\<close> turns \<open>click1\<close> into \<open>engaged1\<close>.
\<close>

definition click_rq1 :: click_req where
  "click_rq1 = \<lparr> cr_session_id = Some ''000000000000000000000001'',
                 p_source = Some ''instagram'', p_medium = None, p_campaign = None,
                 p_content = None, p_placement = None, r_source = None, r_medium = None,
                 r_campaign = None, r_content = None, r_placement = None \<rparr>"

definition E0 :: env where
  "E0 = E1 \<lparr> now := 950000 \<rparr>"

text \<open>A message with the token of \<open>click1\<close>, a phone number and nothing else.\<close>

definition EV_tok_only :: event where
  "EV_tok_only = EV_bare \<lparr> ev_context := Some (Token tok1) \<rparr>"

text \<open>The matcher's outcome for \<open>EV_tok_only\<close> on a collection holding \<open>engaged1\<close>.\<close>

definition M_ctx :: mstate where
  "M_ctx = \<lparr> sessionId = Some (Sid ''000000000000000000000001''), utmData = UtmContext tok1,
             attribution = ''context'', store = [engaged1], oplog = [] \<rparr>"

text \<open>The record that \<open>EV_bare\<close> leaves in an empty collection.\<close>

definition direct0 :: doc where
  "direct0 = \<lparr> d_id = Oid 0, source = ''direct_message'', medium = ''whatsapp'',
               campaign = ''organic'', content = ''none'', placement = ''N/A'',
               hasEngaged = True, phoneNumber = Some ''919876543210'',
               contactId = None, conversationId = None, contactName = None,
               lastMessage = Some ''No text content'', attribution_source = ''direct'',
               timestamp = 1000000, engagedAt = Some 1000000, click_time = 1000000,
               syncedToSheets = False, lastSynced = None, full_url = None \<rparr>"

text \<open>Sinks: one that works, one whose append is refused, one that cannot log in.\<close>

definition sink_ok :: sink where
  "sink_ok = \<lparr> fails = (\<lambda>s. False), sheet_exists = True, header_present = True,
               s_now = 2000000 \<rparr>"

definition sink_quota :: sink where
  "sink_quota = sink_ok \<lparr> fails := (\<lambda>s. s = Append) \<rparr>"

definition sink_auth :: sink where
  "sink_auth = sink_ok \<lparr> fails := (\<lambda>s. s = Init) \<rparr>"

text \<open>
  A collection for the export: two engaged unsynced clicks, a direct message, a
  click that is not engaged and one that is already synced.
\<close>

definition exp_a :: doc where
  "exp_a = engaged1"

definition exp_b :: doc where
  "exp_b = engaged1 \<lparr> d_id := Oid 2, timestamp := 950000 \<rparr>"

definition exp_done :: doc where
  "exp_done = engaged1 \<lparr> d_id := Oid 4, timestamp := 960000, syncedToSheets := True,
                lastSynced := Some 970000 \<rparr>"

definition export_store :: "doc list" where
  "export_store = [exp_a, direct0, exp_b, click_old, exp_done]"

text \<open>A run whose first append is refused, and a run that can never log in.\<close>

definition ks_retry :: "nat \<Rightarrow> sink" where
  "ks_retry n = (if n = 0 then sink_quota else sink_ok)"

definition ks_down :: "nat \<Rightarrow> sink" where
  "ks_down n = sink_auth"

text \<open>A change event for \<open>exp_a\<close>, and \<open>export_store\<close> after a successful export.\<close>

definition ch_a :: change where
  "ch_a = \<lparr> operation = update, fullDocument = Some exp_a \<rparr>"

definition export_done :: "doc list" where
  "export_done =
     [exp_a \<lparr> syncedToSheets := True, lastSynced := Some 2000000 \<rparr>, direct0,
      exp_b \<lparr> syncedToSheets := True, lastSynced := Some 2000000 \<rparr>, click_old, exp_done]"

section \<open>Properties of the strategy chain\<close>

lemma updateData_id [simp]: "d_id (updateData e ev a d) = d_id d"
  by (simp add: updateData_def)

lemma schema_default_id [simp]: "d_id (schema_default i t) = i"
  by (simp add: schema_default_def)

lemma newest_mem: "newest ds = Some d \<Longrightarrow> d \<in> set ds"
  by (induction ds arbitrary: d) (auto split: option.splits if_splits)

lemma findNewest_mem: "findNewest p ds = Some d \<Longrightarrow> d \<in> set ds \<and> p d"
  unfolding findNewest_def by (drule newest_mem) simp

lemma context_match_none: "context_sid ev = None \<Longrightarrow> context_match ev m = m"
  by (auto simp: context_sid_def context_match_def null_if_falsy_def
        split: option.splits token.splits if_splits)


lemma gallabox_skip: "truthy_id (sessionId m) \<Longrightarrow> gallabox_id_match e ev m = m"
  by (simp add: gallabox_id_match_def)

lemma phone_skip: "truthy_id (sessionId m) \<Longrightarrow> phone_match ev m = m"
  by (simp add: phone_match_def)

lemma direct_skip: "truthy_id (sessionId m) \<Longrightarrow> direct_handling e ev m = Inr m"
  by (simp add: direct_handling_def)

lemma context_wins:
  assumes "ev_context ev = Some (Token c)" "session_id c = Some s" "s \<noteq> []"
  shows "strategy_chain e ev ds =
           Inr \<lparr> sessionId = Some (Sid s), utmData = UtmContext c, attribution = ''context'',
                 store = ds, oplog = [] \<rparr>"
  using assms
  by (simp add: strategy_chain_def context_match_def initial_def gallabox_skip phone_skip
      direct_skip)


lemma gallabox_miss:
  assumes "\<not> truthy_id (sessionId m)"
    "(if truthy (contactId_of ev) \<or> truthy (conversationId_of ev)
            then recent_click e (store m) else None) = None"
  shows "gallabox_id_match e ev m =
     m\<lparr> oplog := oplog m @ (if truthy (contactId_of ev) \<or> truthy (conversationId_of ev)
                             then [FindRecent (now e - 5 * 60 * 1000)] else []) \<rparr>"
  using assms
  by (auto simp add: gallabox_id_match_def recent_click_def Let_def split: if_splits)


lemma phone_miss:
  assumes "\<not> truthy_id (sessionId m)"
    "findNewest (phone_query (normalizedPhone ev)) (store m) = None"
  shows "phone_match ev m = m\<lparr> oplog := oplog m @ [FindPhone (normalizedPhone ev)] \<rparr>"
  using assms by (simp add: phone_match_def Let_def)

text \<open>
  When neither the context token nor the recent-click query yields anything, the
  state after the first two strategies is the initial one, plus the query made.
\<close>

lemma after_two_misses:
  assumes c: "context_sid ev = None"
    and r: "(if truthy (contactId_of ev) \<or> truthy (conversationId_of ev)
            then recent_click e ds else None) = None"
  shows "gallabox_id_match e ev (context_match ev (initial ds)) =
        (initial ds)\<lparr> oplog := (if truthy (contactId_of ev) \<or> truthy (conversationId_of ev)
                             then [FindRecent (now e - 5 * 60 * 1000)] else []) \<rparr>"
proof -
  have i0: "\<not> truthy_id (sessionId (initial ds))" "store (initial ds) = ds"
    by (simp_all add: initial_def)
  have pre: "(if truthy (contactId_of ev) \<or> truthy (conversationId_of ev)
            then recent_click e (store (initial ds)) else None) = None"
    using r by (simp only: i0)
  show ?thesis
    using gallabox_miss[OF i0(1) pre] by (simp add: context_match_none[OF c] initial_def)
qed







text \<open>
  A token whose session identifier is no \<open>ObjectId\<close> is matched all the same, and
  the lookup of the engagement update then throws: the handler answers 500 and
  nothing is read or written. The identifiers the landing page mints
  (\<open>wa-\<close>, the click time, eight hex digits) are of that kind.
\<close>

lemma context_webhook_cast_failure:
  assumes gates: "receivingNumber ev = americanHairlineNumber e" "normalizedPhone ev \<noteq> []"
    and tok: "ev_context ev = Some (Token c)" "session_id c = Some s" "s \<noteq> []"
    and ns: "s \<noteq> ''not_stored''"
    and nc: "castObjectId (Sid s) = None"
  shows "gallabox_webhook e ev ds =
           \<lparr> status = 500, body = ProcessingFailed, final_store = ds, ops = [] \<rparr>"
  using gates ns nc
  by (simp add: gallabox_webhook_def context_wins[OF tok] engagement_update_def)

lemma landing_page_token_fails:
  "gallabox_webhook E1 (EV_ctx \<lparr> ev_context := Some (Token tok_wa) \<rparr>) [click1] =
     \<lparr> status = 500, body = ProcessingFailed, final_store = [click1], ops = [] \<rparr>"
  by code_simp



section \<open>Phone normalization and the missing-phone rejection\<close>

lemma dropWhile_zeros:
  "p = [] \<or> hd p \<noteq> CHR ''0'' \<Longrightarrow>
     dropWhile (\<lambda>c. c = CHR ''0'') (replicate n (CHR ''0'') @ p) = p"
  by (induction n) (auto simp: dropWhile_eq_self_iff)

text \<open>
  Claim C9. The sender number loses its leading zeros and gets the country code
  \<open>91\<close> in front unless what is left already starts with it (an absent or
  all-zero sender normalizes to the empty string). The inbound events are the ones
  addressed to the configured number: the endpoint acknowledges and skips every
  other event before it reads anything else (specification, section 6), with no
  store call and no change. Every inbound event whose normalized phone is empty is
  answered with status 400 before any strategy runs: no store call is made and the
  collection is unchanged.
\<close>

theorem C9_phone_normalization_and_rejection:
  "(whatsapp_from ev = None \<longrightarrow> normalizedPhone ev = [])
   \<and> (\<forall>n p. whatsapp_from ev = Some (replicate n (CHR ''0'') @ p)
            \<and> (p = [] \<or> hd p \<noteq> CHR ''0'') \<longrightarrow>
        normalizedPhone ev =
          (if p = [] then [] else if take 2 p = ''91'' then p else ''91'' @ p))
   \<and> (receivingNumber ev = americanHairlineNumber e \<and> normalizedPhone ev = [] \<longrightarrow>
        gallabox_webhook e ev ds =
          \<lparr> status = 400, body = MissingPhone, final_store = ds, ops = [] \<rparr>)
   \<and> (receivingNumber ev \<noteq> americanHairlineNumber e \<longrightarrow>
        gallabox_webhook e ev ds =
          \<lparr> status = 200, body = Skipped, final_store = ds, ops = [] \<rparr>)"
  by (auto simp: normalizedPhone_def senderPhone_def startsWith_def countryCode_def
        dropWhile_zeros gallabox_webhook_def Let_def numeral_2_eq_2)

theorem C9_phone_normalization_and_rejection_witness:
  "whatsapp_from EV_other = None \<and> normalizedPhone EV_other = []
   \<and> whatsapp_from EV_bare = Some (replicate 1 (CHR ''0'') @ ''9876543210'')
   \<and> hd ''9876543210'' \<noteq> CHR ''0''
   \<and> normalizedPhone EV_bare = ''919876543210''
   \<and> receivingNumber EV_zeros = americanHairlineNumber E1 \<and> normalizedPhone EV_zeros = []
   \<and> gallabox_webhook E1 EV_zeros [click1] =
       \<lparr> status = 400, body = MissingPhone, final_store = [click1], ops = [] \<rparr>
   \<and> receivingNumber EV_other = ''123'' \<and> americanHairlineNumber E1 = ''919137279145''
   \<and> gallabox_webhook E1 EV_other [click1] =
       \<lparr> status = 200, body = Skipped, final_store = [click1], ops = [] \<rparr>"
proof -
  have a: "whatsapp_from EV_other = None"
    by (simp add: EV_other_def EV_bare_def)
  have b: "whatsapp_from EV_bare = Some (replicate 1 (CHR ''0'') @ ''9876543210'')
           \<and> (''9876543210'' = [] \<or> hd ''9876543210'' \<noteq> CHR ''0'')"
    by (simp add: EV_bare_def)
  have c: "receivingNumber EV_zeros = americanHairlineNumber E1"
    by (simp add: EV_zeros_def EV_bare_def E1_def receivingNumber_def
          americanHairlineNumber_def opt_default_def is_digit_def)
  have d: "normalizedPhone EV_zeros = []"
    by (simp add: EV_zeros_def EV_bare_def normalizedPhone_def senderPhone_def)
  have o: "receivingNumber EV_other = ''123''" "americanHairlineNumber E1 = ''919137279145''"
    by (simp_all add: EV_other_def EV_bare_def E1_def receivingNumber_def
          americanHairlineNumber_def opt_default_def is_digit_def)
  have o': "receivingNumber EV_other \<noteq> americanHairlineNumber E1"
    unfolding o by simp
  have n1: "normalizedPhone EV_other = []"
    using C9_phone_normalization_and_rejection[where ev = EV_other] a by blast
  have "normalizedPhone EV_bare =
          (if ''9876543210'' = [] then []
           else if take 2 ''9876543210'' = ''91'' then ''9876543210''
           else ''91'' @ ''9876543210'')"
    using C9_phone_normalization_and_rejection[where ev = EV_bare] b by blast
  then have n2: "normalizedPhone EV_bare = ''919876543210''"
    by simp
  have n3: "gallabox_webhook E1 EV_zeros [click1] =
       \<lparr> status = 400, body = MissingPhone, final_store = [click1], ops = [] \<rparr>"
    using C9_phone_normalization_and_rejection[where ev = EV_zeros and e = E1
        and ds = "[click1]"] c d by blast
  have n4: "gallabox_webhook E1 EV_other [click1] =
       \<lparr> status = 200, body = Skipped, final_store = [click1], ops = [] \<rparr>"
    using C9_phone_normalization_and_rejection[where ev = EV_other and e = E1
        and ds = "[click1]"] o' by blast
  show ?thesis
    using a b c d o n1 n2 n3 n4 by blast
qed


section \<open>The engagement update\<close>

lemma oid_bound_gt: "d \<in> set ds \<Longrightarrow> d_id d = Oid n \<Longrightarrow> n < oid_bound ds"
  by (induction ds) (auto simp: less_max_iff_disj)

lemma new_oid_fresh: "new_oid ds \<notin> d_id ` set ds"
proof
  assume "new_oid ds \<in> d_id ` set ds"
  then obtain d where "d \<in> set ds" "d_id d = Oid (oid_bound ds)"
    by (auto simp: new_oid_def)
  then have "oid_bound ds < oid_bound ds"
    by (rule oid_bound_gt)
  then show False by simp
qed

lemma create_new_oid: "d_id d = new_oid ds \<Longrightarrow> create d ds = Inr (ds @ [d])"
  using new_oid_fresh[of ds] by (simp add: create_def)

lemma messageContent_nonempty: "messageContent ev \<noteq> []"
  by (auto simp: messageContent_def opt_default_def js_or_def null_if_falsy_def
        split: option.splits)

text \<open>
  Claim C10. Every event that passes the number filter and carries a phone number,
  but no usable context token and no conversation id, and for which neither the
  recent-click query (made only when a contact id is present) nor the phone query
  finds a document, is still upserted: the handler looks up the undefined id, finds
  nothing, creates a document under a generated id with attribution \<open>direct\<close>
  and answers with status 200, matched id undefined, attribution \<open>direct\<close>.
\<close>

theorem C10_unmatched_without_conversation_is_upserted:
  assumes "receivingNumber ev = americanHairlineNumber e"
    and "normalizedPhone ev \<noteq> []"
    and "context_sid ev = None"
    and "conversationId_of ev = None"
    and "truthy (contactId_of ev) \<longrightarrow> recent_click e ds = None"
    and "findNewest (phone_query (normalizedPhone ev)) ds = None"
  shows "gallabox_webhook e ev ds =
     \<lparr> status = 200,
       body = Processed None (Some ''direct_message'') ''direct'',
       final_store = ds @ [(updateData e ev ''direct'' (schema_default (new_oid ds) (now e)))
                            \<lparr> timestamp := now e \<rparr>],
       ops = (if truthy (contactId_of ev) then [FindRecent (now e - 5 * 60 * 1000)] else [])
               @ [FindPhone (normalizedPhone ev), FindById None,
                  CreateEngaged (new_oid ds)] \<rparr>"
proof -
  have r: "(if truthy (contactId_of ev) \<or> truthy (conversationId_of ev)
            then recent_click e ds else None) = None"
    using assms(4,5) by simp
  define m where "m = gallabox_id_match e ev (context_match ev (initial ds))"
  have m: "m = (initial ds)\<lparr> oplog := (if truthy (contactId_of ev)
                             then [FindRecent (now e - 5 * 60 * 1000)] else []) \<rparr>"
    unfolding m_def after_two_misses[OF assms(3) r] using assms(4) by simp
  have mf: "\<not> truthy_id (sessionId m)" "store m = ds"
    by (simp_all add: m initial_def)
  have ch: "strategy_chain e ev ds =
     Inr ((initial ds)\<lparr> oplog := (if truthy (contactId_of ev)
                             then [FindRecent (now e - 5 * 60 * 1000)] else [])
                          @ [FindPhone (normalizedPhone ev)] \<rparr>)"
    using assms(4,6) mf
    by (simp add: strategy_chain_def m_def[symmetric] phone_miss direct_handling_def)
       (simp add: m initial_def)
  show ?thesis
    using assms(1,2)
    by (simp add: gallabox_webhook_def ch engagement_update_def initial_def Let_def
          create_new_oid)
qed

theorem C10_unmatched_without_conversation_is_upserted_witness:
  "receivingNumber EV_contact = americanHairlineNumber E1
   \<and> normalizedPhone EV_contact \<noteq> []
   \<and> context_sid EV_contact = None
   \<and> conversationId_of EV_contact = None
   \<and> truthy (contactId_of EV_contact)
   \<and> recent_click E1 [click_old] = None
   \<and> findNewest (phone_query (normalizedPhone EV_contact)) [click_old] = None
   \<and> gallabox_webhook E1 EV_contact [click_old] =
       \<lparr> status = 200,
         body = Processed None (Some ''direct_message'') ''direct'',
         final_store =
           [click_old,
            \<lparr> d_id = Oid 4, source = ''direct_message'', medium = ''whatsapp'',
              campaign = ''organic'', content = ''none'', placement = ''N/A'',
              hasEngaged = True, phoneNumber = Some ''919876543210'',
              contactId = Some ''ct1'', conversationId = None, contactName = None,
              lastMessage = Some ''No text content'', attribution_source = ''direct'',
              timestamp = 1000000, engagedAt = Some 1000000, click_time = 1000000,
              syncedToSheets = False, lastSynced = None, full_url = None \<rparr>],
         ops = [FindRecent 700000, FindPhone ''919876543210'', FindById None,
                CreateEngaged (Oid 4)] \<rparr>"
proof -
  have h1: "receivingNumber EV_contact = americanHairlineNumber E1" by code_simp
  have h2: "normalizedPhone EV_contact \<noteq> []" by code_simp
  have h3: "context_sid EV_contact = None" by code_simp
  have h4: "conversationId_of EV_contact = None" by code_simp
  have h5: "truthy (contactId_of EV_contact)" by code_simp
  have h6: "recent_click E1 [click_old] = None" by code_simp
  have h7: "findNewest (phone_query (normalizedPhone EV_contact)) [click_old] = None"
    by code_simp
  have v: "\<lparr> status = 200,
       body = Processed None (Some ''direct_message'') ''direct'',
       final_store = [click_old] @ [(updateData E1 EV_contact ''direct''
                        (schema_default (new_oid [click_old]) (now E1)))
                            \<lparr> timestamp := now E1 \<rparr>],
       ops = (if truthy (contactId_of EV_contact)
              then [FindRecent (now E1 - 5 * 60 * 1000)] else [])
               @ [FindPhone (normalizedPhone EV_contact), FindById None,
                  CreateEngaged (new_oid [click_old])] \<rparr>
     = \<lparr> status = 200,
         body = Processed None (Some ''direct_message'') ''direct'',
         final_store =
           [click_old,
            \<lparr> d_id = Oid 4, source = ''direct_message'', medium = ''whatsapp'',
              campaign = ''organic'', content = ''none'', placement = ''N/A'',
              hasEngaged = True, phoneNumber = Some ''919876543210'',
              contactId = Some ''ct1'', conversationId = None, contactName = None,
              lastMessage = Some ''No text content'', attribution_source = ''direct'',
              timestamp = 1000000, engagedAt = Some 1000000, click_time = 1000000,
              syncedToSheets = False, lastSynced = None, full_url = None \<rparr>],
         ops = [FindRecent 700000, FindPhone ''919876543210'', FindById None,
                CreateEngaged (Oid 4)] \<rparr>"
    by code_simp
  have h5': "truthy (contactId_of EV_contact) \<longrightarrow> recent_click E1 [click_old] = None"
    using h6 by simp
  have g: "gallabox_webhook E1 EV_contact [click_old] =
       \<lparr> status = 200,
         body = Processed None (Some ''direct_message'') ''direct'',
         final_store =
           [click_old,
            \<lparr> d_id = Oid 4, source = ''direct_message'', medium = ''whatsapp'',
              campaign = ''organic'', content = ''none'', placement = ''N/A'',
              hasEngaged = True, phoneNumber = Some ''919876543210'',
              contactId = Some ''ct1'', conversationId = None, contactName = None,
              lastMessage = Some ''No text content'', attribution_source = ''direct'',
              timestamp = 1000000, engagedAt = Some 1000000, click_time = 1000000,
              syncedToSheets = False, lastSynced = None, full_url = None \<rparr>],
         ops = [FindRecent 700000, FindPhone ''919876543210'', FindById None,
                CreateEngaged (Oid 4)] \<rparr>"
    by (rule trans[OF C10_unmatched_without_conversation_is_upserted[OF h1 h2 h3 h4 h5' h7] v])
  from h1 h2 h3 h4 h5 h6 h7 g show ?thesis
    by (intro conjI)
qed

lemma find_after_update:
  "List.find (\<lambda>d. d_id d = i) ds = Some d \<Longrightarrow> d_id (f d) = i \<Longrightarrow>
     List.find (\<lambda>d. d_id d = i) (findByIdAndUpdate i f ds) = Some (f d)"
  by (induction ds) (auto split: if_splits)

lemma find_id: "List.find (\<lambda>d. d_id d = i) ds = Some d \<Longrightarrow> d_id d = i"
  by (induction ds) (auto split: if_splits)

text \<open>
  Claim C4, as amended. When the engagement update is applied to an existing record,
  \<open>contactName\<close> is overwritten only when the event supplies a non-empty name and
  is kept otherwise; \<open>contactId\<close> and \<open>conversationId\<close> are always overwritten
  with the event's values, which are null when the event supplies none.
\<close>

theorem C4_update_of_existing_record:
  assumes "attribution m \<noteq> ''new_direct''"
    and "sessionId m = Some s"
    and "s \<noteq> Sid ''not_stored''"
    and "findById (Some s) (store m) = Inr (Some d)"
  shows "\<exists>m' d'. engagement_update e ev m = Inr m'
           \<and> findById (Some s) (store m') = Inr (Some d')
           \<and> contactName d' = (if truthy (contact_name ev) then contact_name ev
                                else contactName d)
           \<and> contactId d' = (if truthy (ev_contactId ev) then ev_contactId ev
                              else if truthy (contact_id ev) then contact_id ev
                              else None)
           \<and> conversationId d' = (if truthy (ev_conversationId ev) then ev_conversationId ev
                                   else None)"
proof -
  from assms(4) obtain i where ci: "castObjectId s = Some i"
    and fnd: "List.find (\<lambda>d. d_id d = i) (store m) = Some d"
    by (auto split: option.splits)
  have di: "d_id d = i"
    by (rule find_id[OF fnd])
  let ?f = "updateData e ev (attribution m)"
  have eu: "engagement_update e ev m =
      Inr (m\<lparr> store := findByIdAndUpdate i ?f (store m),
               oplog := oplog m @ [FindById (Some i), UpdateEngaged i] \<rparr>)"
    using assms(1,2,3) ci fnd di by (simp add: engagement_update_def Let_def)
  have "d_id (?f d) = i"
    using di by (simp add: updateData_def)
  then have "List.find (\<lambda>d. d_id d = i) (findByIdAndUpdate i ?f (store m)) = Some (?f d)"
    by (rule find_after_update[OF fnd])
  then have fd: "findById (Some s) (findByIdAndUpdate i ?f (store m)) = Inr (Some (?f d))"
    using ci by simp
  have cn: "contactName (?f d) = (if truthy (contact_name ev) then contact_name ev
                                else contactName d)"
    by (simp add: updateData_def contactName_of_def null_if_falsy_def)
  have cid: "contactId (?f d) = (if truthy (ev_contactId ev) then ev_contactId ev
                              else if truthy (contact_id ev) then contact_id ev
                              else None)"
    by (simp add: updateData_def contactId_of_def null_if_falsy_def js_or_def)
  have cv: "conversationId (?f d) = (if truthy (ev_conversationId ev) then ev_conversationId ev
                                   else None)"
    by (simp add: updateData_def conversationId_of_def null_if_falsy_def)
  let ?M = "m\<lparr> store := findByIdAndUpdate i ?f (store m),
               oplog := oplog m @ [FindById (Some i), UpdateEngaged i] \<rparr>"
  have st: "store ?M = findByIdAndUpdate i ?f (store m)"
    by simp
  have "engagement_update e ev m = Inr ?M \<and> findById (Some s) (store ?M) = Inr (Some (?f d))"
    using eu fd unfolding st by (intro conjI)
  then show ?thesis
    using cn cid cv by blast
qed

theorem C4_update_of_existing_record_witness:
  "attribution M_ctx \<noteq> ''new_direct''
   \<and> sessionId M_ctx = Some (Sid ''000000000000000000000001'')
   \<and> Sid ''000000000000000000000001'' \<noteq> Sid ''not_stored''
   \<and> findById (Some (Sid ''000000000000000000000001'')) (store M_ctx) = Inr (Some engaged1)
   \<and> contactName engaged1 = Some ''Asha''
   \<and> (\<exists>m' d'. engagement_update E1 EV_tok_only M_ctx = Inr m'
           \<and> findById (Some (Sid ''000000000000000000000001'')) (store m') = Inr (Some d')
           \<and> contactName d' = Some ''Asha''
           \<and> contactId d' = None
           \<and> conversationId d' = None)"
proof -
  have h1: "attribution M_ctx \<noteq> ''new_direct''" by (simp add: M_ctx_def)
  have h2: "sessionId M_ctx = Some (Sid ''000000000000000000000001'')"
    by (simp add: M_ctx_def)
  have h3: "Sid ''000000000000000000000001'' \<noteq> Sid ''not_stored''" by simp
  have h4: "findById (Some (Sid ''000000000000000000000001'')) (store M_ctx)
              = Inr (Some engaged1)"
    by code_simp
  have n: "contactName engaged1 = Some ''Asha''" by (simp add: engaged1_def)
  have ev: "\<not> truthy (contact_name EV_tok_only)" "\<not> truthy (ev_contactId EV_tok_only)"
    "\<not> truthy (contact_id EV_tok_only)" "\<not> truthy (ev_conversationId EV_tok_only)"
    by (simp_all add: EV_tok_only_def EV_bare_def)
  show ?thesis
    using C4_update_of_existing_record[OF h1 h2 h3 h4, of E1 EV_tok_only] h1 h2 h3 h4 n ev
    by (simp only: if_False) auto
qed

text \<open>
  Claim C4 as stated fails. The click \<open>click1\<close> is stored under an id given as 24
  hex digits; a first message with its token, a contact id and a conversation id
  engages it; a second message with the same token and neither identifier is
  matched to the record and blanks its \<open>contactId\<close> and \<open>conversationId\<close>.
\<close>

theorem C4_counterexample:
  "store_click 900000 click_rq1 [] = (201, [click1])
   \<and> gallabox_webhook E0 EV_ctx [click1] =
       \<lparr> status = 200,
         body = Processed (Some (Sid ''000000000000000000000001'')) (Some ''instagram'')
                  ''context'',
         final_store = [engaged1],
         ops = [FindById (Some (Oid 1)), UpdateEngaged (Oid 1)] \<rparr>
   \<and> contactId engaged1 = Some ''ct1'' \<and> conversationId engaged1 = Some ''cv1''
   \<and> ev_contactId EV_tok_only = None \<and> contact_id EV_tok_only = None
   \<and> ev_conversationId EV_tok_only = None
   \<and> gallabox_webhook E1 EV_tok_only [engaged1] =
       \<lparr> status = 200,
         body = Processed (Some (Sid ''000000000000000000000001'')) (Some ''instagram'')
                  ''context'',
         final_store =
           [engaged1 \<lparr> contactId := None, conversationId := None,
                       lastMessage := Some ''No text content'',
                       engagedAt := Some 1000000 \<rparr>],
         ops = [FindById (Some (Oid 1)), UpdateEngaged (Oid 1)] \<rparr>"
  by code_simp


lemma updateData_idem:
  "updateData e ev a (updateData e ev a d) = updateData e ev a d"
  by (simp add: updateData_def)

lemma updateData_timestamp:
  "updateData e ev a (d\<lparr> timestamp := t \<rparr>) = (updateData e ev a d)\<lparr> timestamp := t \<rparr>"
  by (simp add: updateData_def)

lemma findByIdAndUpdate_absent:
  "i \<notin> d_id ` set ds \<Longrightarrow> findByIdAndUpdate i f ds = ds"
  by (induction ds) auto

lemma findByIdAndUpdate_twice:
  "(\<And>d. d_id (f d) = d_id d) \<Longrightarrow> (\<And>d. f (f d) = f d) \<Longrightarrow>
     findByIdAndUpdate i f (findByIdAndUpdate i f ds) = findByIdAndUpdate i f ds"
  by (induction ds) auto

lemma findByIdAndUpdate_append:
  "i \<notin> d_id ` set ds \<Longrightarrow>
     findByIdAndUpdate i f (ds @ [x]) = ds @ (if d_id x = i then [f x] else [x])"
  by (induction ds) auto

lemma find_absent: "i \<notin> d_id ` set ds \<Longrightarrow> List.find (\<lambda>d. d_id d = i) ds = None"
  by (induction ds) auto

lemma find_present: "List.find (\<lambda>d. d_id d = i) ds = Some d \<Longrightarrow> i \<in> d_id ` set ds"
  by (induction ds) (auto split: if_splits)

lemma find_append_absent:
  "i \<notin> d_id ` set ds \<Longrightarrow>
     List.find (\<lambda>d. d_id d = i) (ds @ [x]) = (if d_id x = i then Some x else None)"
  by (induction ds) auto

lemma spread_utm_id [simp]: "d_id (spread_utm i utm t) = i"
  by (cases utm) simp_all

lemma utm_id_defined: "\<exists>u. utm_id (Some s) utm = Some u"
  by (cases utm) (auto split: option.splits)

text \<open>
  For a defined matched id the update step is idempotent: applied to its own result
  with the same input and the same clock, it leaves the collection as it is. This
  covers an id that does not cast (both applications throw before any write), the
  update of an existing record, the creation of a missing one, and a creation that
  the unique index rejects.
\<close>

lemma update_step_idempotent_defined_id:
  "update_step e ev (Some j) utm attr (update_step e ev (Some j) utm attr ds)
     = update_step e ev (Some j) utm attr ds"
proof (cases "attr \<noteq> ''new_direct'' \<and> Some j \<noteq> Some (Sid ''not_stored'')")
  case False
  then show ?thesis
    by (auto simp: update_step_def engagement_update_def chain_state_def)
next
  case run: True
  let ?f = "updateData e ev attr"
  show ?thesis
  proof (cases "castObjectId j")
    case None
    then have "\<And>xs. update_step e ev (Some j) utm attr xs = xs"
      using run by (simp add: update_step_def engagement_update_def chain_state_def)
    then show ?thesis by simp
  next
    case (Some i)
    note ci = Some
    show ?thesis
    proof (cases "List.find (\<lambda>d. d_id d = i) ds")
      case (Some d)
      have dj: "d_id d = i" by (rule find_id[OF Some])
      have s1: "update_step e ev (Some j) utm attr ds = findByIdAndUpdate i ?f ds"
        using run ci Some dj
        by (simp add: update_step_def engagement_update_def chain_state_def Let_def)
      have "d_id (?f d) = i" using dj by simp
      then have f2: "List.find (\<lambda>d. d_id d = i) (findByIdAndUpdate i ?f ds) = Some (?f d)"
        by (rule find_after_update[OF Some])
      have s2: "update_step e ev (Some j) utm attr (findByIdAndUpdate i ?f ds)
          = findByIdAndUpdate i ?f (findByIdAndUpdate i ?f ds)"
        using run ci f2 dj
        by (simp add: update_step_def engagement_update_def chain_state_def Let_def)
      show ?thesis
        unfolding s1 s2 by (rule findByIdAndUpdate_twice) (simp_all add: updateData_idem)
    next
      case None
      then have nj: "i \<notin> d_id ` set ds"
        by (auto simp: find_None_iff)
      obtain u where u: "utm_id (Some j) utm = Some u"
        using utm_id_defined by blast
      show ?thesis
      proof (cases "castObjectId u")
        case cu: None
        have "update_step e ev (Some j) utm attr ds = ds"
          using run ci None u cu
          by (simp add: update_step_def engagement_update_def chain_state_def Let_def)
        then show ?thesis by simp
      next
        case cu: (Some k)
        define nd where "nd = (?f (spread_utm k utm (now e)))\<lparr> timestamp := now e \<rparr>"
        have fnd: "?f nd = nd"
          by (simp add: nd_def updateData_timestamp updateData_idem)
        have idn: "d_id nd = k"
          by (simp add: nd_def)
        have s1: "update_step e ev (Some j) utm attr ds =
            (case create nd ds of Inl err \<Rightarrow> ds | Inr ds' \<Rightarrow> ds')"
          using run ci None u cu
          by (simp add: update_step_def engagement_update_def chain_state_def Let_def nd_def
                split: sum.splits)
        show ?thesis
        proof (cases "k \<in> d_id ` set ds")
          case True
          then have "update_step e ev (Some j) utm attr ds = ds"
            using idn by (simp add: s1 create_def)
          then show ?thesis by simp
        next
          case fresh: False
          then have r1: "update_step e ev (Some j) utm attr ds = ds @ [nd]"
            using idn by (simp add: s1 create_def)
          show ?thesis
          proof (cases "k = i")
            case True
            have f2: "List.find (\<lambda>d. d_id d = i) (ds @ [nd]) = Some nd"
              using nj True idn by (simp add: find_append_absent)
            have "update_step e ev (Some j) utm attr (ds @ [nd])
                = findByIdAndUpdate i ?f (ds @ [nd])"
              using run ci f2 True idn
              by (simp add: update_step_def engagement_update_def chain_state_def Let_def)
            also have "\<dots> = ds @ [nd]"
              using nj True idn fnd by (simp add: findByIdAndUpdate_append)
            finally show ?thesis
              unfolding r1 .
          next
            case False
            have f2: "List.find (\<lambda>d. d_id d = i) (ds @ [nd]) = None"
              using nj False idn by (simp add: find_append_absent)
            have "update_step e ev (Some j) utm attr (ds @ [nd]) =
                (case create nd (ds @ [nd]) of Inl err \<Rightarrow> ds @ [nd] | Inr ds' \<Rightarrow> ds')"
              using run ci f2 u cu
              by (simp add: update_step_def engagement_update_def chain_state_def Let_def
                    nd_def split: sum.splits)
            also have "\<dots> = ds @ [nd]"
              by (simp add: create_def)
            finally show ?thesis
              unfolding r1 .
          qed
        qed
      qed
    qed
  qed
qed

text \<open>
  Claim C3 (applying the record-update step twice with identical input and a fixed
  clock leaves the same records as applying it once) at an undefined matched id.
  The update step looks up \<open>undefined\<close>, finds nothing and creates a document
  under a generated id, so applying it twice leaves two records where applying it
  once leaves one. The whole handler does the same for a message that carries only
  a phone number.
\<close>

theorem C3_repeated_update_without_id:
  "update_step E1 EV_bare None UtmDefault ''direct'' [] = [direct0]
   \<and> update_step E1 EV_bare None UtmDefault ''direct''
        (update_step E1 EV_bare None UtmDefault ''direct'' [])
       = [direct0, direct0 \<lparr> d_id := Oid 1 \<rparr>]
   \<and> final_store (gallabox_webhook E1 EV_bare []) = [direct0]
   \<and> final_store (gallabox_webhook E1 EV_bare [direct0])
       = [direct0, direct0 \<lparr> d_id := Oid 1 \<rparr>]"
  by code_simp

section \<open>The export\<close>

subsection \<open>Batch selection\<close>

lemma sorted_newest_first:
  "sorted_wrt (\<lambda>a b. timestamp b \<le> timestamp a) (sort_newest_first ds)"
proof -
  have "sorted (map (\<lambda>d. - timestamp d) (sort_newest_first ds))"
    by (simp add: sort_newest_first_def)
  then show ?thesis
    by (simp add: sorted_map sorted_wrt_iff_nth_less)
qed

lemma mset_newest_first: "mset (sort_newest_first ds) = mset ds"
  by (simp add: sort_newest_first_def)

lemma mset_take_drop: "mset xs - mset (take n xs) = mset (drop n xs)"
proof -
  have "mset xs = mset (take n xs) + mset (drop n xs)"
    by (metis append_take_drop_id mset_append)
  then show ?thesis by simp
qed

text \<open>
  Claim C6. The batch export selects only records that are engaged, not yet synced
  and not direct messages; it takes 250 of them, or all of them when there are
  fewer; the selection is ordered newest first by timestamp; and every eligible
  record it leaves out is no newer than every record it takes.
\<close>

theorem C6_batch_selection:
  "mset (select_batch ds) \<subseteq># mset (filter eligible ds)
   \<and> (\<forall>d \<in> set (select_batch ds).
         hasEngaged d \<and> \<not> syncedToSheets d \<and> source d \<noteq> ''direct_message'')
   \<and> length (select_batch ds) = min 250 (length (filter eligible ds))
   \<and> sorted_wrt (\<lambda>a b. timestamp b \<le> timestamp a) (select_batch ds)
   \<and> (\<forall>d \<in># mset (filter eligible ds) - mset (select_batch ds).
        \<forall>s \<in> set (select_batch ds). timestamp d \<le> timestamp s)"
proof -
  let ?xs = "sort_newest_first (filter eligible ds)"
  have ms: "mset ?xs = mset (filter eligible ds)"
    by (rule mset_newest_first)
  have sel: "select_batch ds = take 250 ?xs"
    by (simp add: select_batch_def)
  have srt: "sorted_wrt (\<lambda>a b. timestamp b \<le> timestamp a) ?xs"
    by (rule sorted_newest_first)
  have a: "mset (select_batch ds) \<subseteq># mset (filter eligible ds)"
    unfolding sel ms[symmetric]
    by (metis append_take_drop_id mset_append mset_subset_eq_add_left)
  have b: "\<forall>d \<in> set (select_batch ds).
         hasEngaged d \<and> \<not> syncedToSheets d \<and> source d \<noteq> ''direct_message''"
  proof
    fix d assume "d \<in> set (select_batch ds)"
    then have "d \<in># mset (filter eligible ds)"
      using a by (meson in_multiset_in_set mset_subset_eqD)
    then show "hasEngaged d \<and> \<not> syncedToSheets d \<and> source d \<noteq> ''direct_message''"
      by (simp add: eligible_def)
  qed
  have c: "length (select_batch ds) = min 250 (length (filter eligible ds))"
  proof -
    have "length ?xs = length (filter eligible ds)"
      using ms by (metis size_mset)
    then show ?thesis unfolding sel by simp
  qed
  have d: "sorted_wrt (\<lambda>a b. timestamp b \<le> timestamp a) (select_batch ds)"
    unfolding sel using srt by (rule sorted_wrt_take)
  have e: "\<forall>d \<in># mset (filter eligible ds) - mset (select_batch ds).
        \<forall>s \<in> set (select_batch ds). timestamp d \<le> timestamp s"
  proof -
    have "sorted_wrt (\<lambda>a b. timestamp b \<le> timestamp a) (take 250 ?xs @ drop 250 ?xs)"
      using srt by simp
    then have "\<forall>s \<in> set (take 250 ?xs). \<forall>d \<in> set (drop 250 ?xs). timestamp d \<le> timestamp s"
      unfolding sorted_wrt_append by blast
    then show ?thesis
      unfolding sel ms[symmetric] mset_take_drop by auto
  qed
  show ?thesis using a b c d e by blast
qed

theorem C6_batch_selection_witness:
  "select_batch export_store = [exp_b, exp_a]
   \<and> filter eligible export_store = [exp_a, exp_b]
   \<and> timestamp exp_a \<le> timestamp exp_b
   \<and> hasEngaged exp_b \<and> \<not> syncedToSheets exp_b \<and> source exp_b \<noteq> ''direct_message''
   \<and> length (select_batch export_store) = 2
   \<and> length (filter eligible (replicate 300 exp_a)) = 300
   \<and> length (select_batch (replicate 300 exp_a)) = 250"
proof -
  have ea: "eligible exp_a"
    by code_simp
  then have big: "length (filter eligible (replicate 300 exp_a)) = 300"
    by simp
  have cap: "length (select_batch (replicate 300 exp_a)) = 250"
    using C6_batch_selection[of "replicate 300 exp_a"] big by simp
  have s: "select_batch export_store = [exp_b, exp_a]"
    by code_simp
  have f: "filter eligible export_store = [exp_a, exp_b]"
    by code_simp
  have m: "exp_b \<in> set (select_batch export_store)" "exp_a \<in> set (select_batch export_store)"
    by (simp_all add: s)
  note t = C6_batch_selection[of export_store]
  from t m have e: "hasEngaged exp_b \<and> \<not> syncedToSheets exp_b
      \<and> source exp_b \<noteq> ''direct_message''"
    by blast
  from t have "sorted_wrt (\<lambda>a b. timestamp b \<le> timestamp a) (select_batch export_store)"
    by blast
  then have o: "timestamp exp_a \<le> timestamp exp_b"
    by (simp add: s)
  from t have "length (select_batch export_store) = min 250 (length (filter eligible export_store))"
    by blast
  then have l: "length (select_batch export_store) = 2"
    by (simp add: f)
  show ?thesis using s f o e l big cap by blast
qed




subsection \<open>Reading logs\<close>

lemma schedule_append [simp]: "schedule (a @ b) = schedule a @ schedule b"
  by (induction a rule: schedule.induct) simp_all

lemma marked_ids_append [simp]: "marked_ids (a @ b) = marked_ids a @ marked_ids b"
  by (induction a rule: marked_ids.induct) simp_all

lemma appended_ids_append [simp]: "appended_ids (a @ b) = appended_ids a \<union> appended_ids b"
  by (induction a rule: appended_ids.induct) auto

lemma append_before_mark_append [simp]:
  "append_before_mark S (a @ b) =
     (append_before_mark S a \<and> append_before_mark (S \<union> appended_ids a) b)"
  by (induction S a rule: append_before_mark.induct) (auto simp: Un_assoc)

lemma schedule_marks [simp]: "schedule (map MarkSynced ids) = []"
  by (induction ids) simp_all

lemma marked_ids_marks [simp]: "marked_ids (map MarkSynced ids) = ids"
  by (induction ids) simp_all

lemma appended_ids_marks [simp]: "appended_ids (map MarkSynced ids) = {}"
  by (induction ids) simp_all

lemma append_before_mark_marks [simp]:
  "append_before_mark S (map MarkSynced ids) = (set ids \<subseteq> S)"
  by (induction ids) auto

lemma schedule_marks_comp [simp]: "schedule (map (MarkSynced \<circ> f) xs) = []"
  by (induction xs) simp_all

lemma marked_ids_marks_comp [simp]: "marked_ids (map (MarkSynced \<circ> f) xs) = map f xs"
  by (induction xs) simp_all

lemma appended_ids_marks_comp [simp]: "appended_ids (map (MarkSynced \<circ> f) xs) = {}"
  by (induction xs) simp_all

lemma append_before_mark_marks_comp [simp]:
  "append_before_mark S (map (MarkSynced \<circ> f) xs) = (f ` set xs \<subseteq> S)"
  by (induction xs) auto

lemma marked_ids_set: "MarkSynced i \<in> set l \<longleftrightarrow> i \<in> set (marked_ids l)"
  by (induction l rule: marked_ids.induct) auto

lemma appended_ids_mem:
  "i \<in> appended_ids l \<Longrightarrow> \<exists>ids. Appended ids \<in> set l \<and> i \<in> set ids"
  by (induction l rule: appended_ids.induct) auto

lemma append_before_mark_split:
  assumes "append_before_mark {} l" and "l = pre @ MarkSynced i # post"
  shows "\<exists>ids. Appended ids \<in> set pre \<and> i \<in> set ids"
proof -
  have "i \<in> appended_ids pre"
    using assms by simp
  then show ?thesis
    by (rule appended_ids_mem)
qed

subsection \<open>One attempt\<close>

lemma sync_attempt_log:
  assumes "sync_attempt k ds = (r, ds', l)"
  shows "schedule l = [ApiCall Init]" and "append_before_mark {} l"
  using assms
  by (auto simp: sync_attempt_def api_def Let_def split: if_splits)

lemma sync_attempt_threw:
  assumes "sync_attempt k ds = (Threw s, ds', l)"
  shows "ds' = ds" and "marked_ids l = []" and "appended_ids l = {}"
  using assms
  by (auto simp: sync_attempt_def api_def Let_def split: if_splits)

lemma sync_attempt_append_fails:
  assumes "fails k Append" and "sync_attempt k ds = (r, ds', l)"
  shows "ds' = ds" and "marked_ids l = []" and "appended_ids l = {}"
  using assms
  by (auto simp: sync_attempt_def api_def Let_def split: if_splits)

lemma sync_attempt_no_append:
  assumes "appended_ids l = {}" and "sync_attempt k ds = (r, ds', l)"
  shows "ds' = ds" and "marked_ids l = []"
  using assms
  by (auto simp: sync_attempt_def api_def Let_def split: if_splits)


subsection \<open>The retry loop\<close>

lemma loop_done:
  "attempt < 3 \<Longrightarrow> sync_attempt (ks attempt) ds = (Done n, ds', l') \<Longrightarrow>
     syncToSheets_from ks attempt ds l = (Returned n, ds', l @ l')"
  by (subst syncToSheets_from.simps) (simp add: MAX_RETRIES_def)

lemma loop_retry:
  "attempt + 1 < 3 \<Longrightarrow> sync_attempt (ks attempt) ds = (Threw s, ds', l') \<Longrightarrow>
     syncToSheets_from ks attempt ds l =
       syncToSheets_from ks (attempt + 1) ds' (l @ l' @ [Sleep ((attempt + 1) * 2000)])"
  by (subst syncToSheets_from.simps) (simp add: MAX_RETRIES_def)

lemma loop_final:
  "sync_attempt (ks 2) ds = (Threw s, ds', l') \<Longrightarrow>
     syncToSheets_from ks 2 ds l = (FinalSyncFailure s, ds', l @ l')"
  by (subst syncToSheets_from.simps) (simp add: MAX_RETRIES_def)

text \<open>
  The four ways a run can go, with the log of each: the logs of the attempts made,
  in order, with the waits between them.
\<close>

lemma syncToSheets_cases:
  obtains
    (first) n ds' l0 where
      "sync_attempt (ks 0) ds = (Done n, ds', l0)"
      "syncToSheets ks ds = (Returned n, ds', l0)"
  | (second) s0 l0 n ds' l1 where
      "sync_attempt (ks 0) ds = (Threw s0, ds, l0)"
      "sync_attempt (ks 1) ds = (Done n, ds', l1)"
      "syncToSheets ks ds = (Returned n, ds', l0 @ [Sleep 2000] @ l1)"
  | (third) s0 l0 s1 l1 n ds' l2 where
      "sync_attempt (ks 0) ds = (Threw s0, ds, l0)"
      "sync_attempt (ks 1) ds = (Threw s1, ds, l1)"
      "sync_attempt (ks 2) ds = (Done n, ds', l2)"
      "syncToSheets ks ds = (Returned n, ds', l0 @ [Sleep 2000] @ l1 @ [Sleep 4000] @ l2)"
  | (exhausted) s0 l0 s1 l1 s2 l2 where
      "sync_attempt (ks 0) ds = (Threw s0, ds, l0)"
      "sync_attempt (ks 1) ds = (Threw s1, ds, l1)"
      "sync_attempt (ks 2) ds = (Threw s2, ds, l2)"
      "syncToSheets ks ds = (FinalSyncFailure s2, ds, l0 @ [Sleep 2000] @ l1 @ [Sleep 4000] @ l2)"
proof -
  obtain r0 d0 l0 where a0: "sync_attempt (ks 0) ds = (r0, d0, l0)"
    by (rule prod_cases3)
  show thesis
  proof (cases r0)
    case (Done n)
    then show thesis
      using a0 first loop_done[of 0 ks ds n d0 l0 "[]"] by (simp add: syncToSheets_def)
  next
    case t0: (Threw s0)
    then have e0: "d0 = ds" using a0 sync_attempt_threw(1) by blast
    have g0: "syncToSheets ks ds = syncToSheets_from ks 1 ds (l0 @ [Sleep 2000])"
      using loop_retry[of 0 ks ds s0 d0 l0 "[]"] a0 t0 e0 by (simp add: syncToSheets_def)
    obtain r1 d1 l1 where a1: "sync_attempt (ks 1) ds = (r1, d1, l1)"
      by (rule prod_cases3)
    show thesis
    proof (cases r1)
      case (Done n)
      then show thesis
        using a0 t0 e0 a1 g0 second loop_done[of 1 ks ds n d1 l1 "l0 @ [Sleep 2000]"] by simp
    next
      case t1: (Threw s1)
      then have e1: "d1 = ds" using a1 sync_attempt_threw(1) by blast
      have g1: "syncToSheets ks ds =
          syncToSheets_from ks 2 ds (l0 @ [Sleep 2000] @ l1 @ [Sleep 4000])"
        using loop_retry[of 1 ks ds s1 d1 l1 "l0 @ [Sleep 2000]"] a1 t1 e1 g0
        by (simp add: numeral_2_eq_2)
      obtain r2 d2 l2 where a2: "sync_attempt (ks 2) ds = (r2, d2, l2)"
        by (rule prod_cases3)
      show thesis
      proof (cases r2)
        case (Done n)
        then show thesis
          using a0 t0 e0 a1 t1 e1 a2 g1 third
            loop_done[of 2 ks ds n d2 l2 "l0 @ [Sleep 2000] @ l1 @ [Sleep 4000]"] by simp
      next
        case t2: (Threw s2)
        then have e2: "d2 = ds" using a2 sync_attempt_threw(1) by blast
        show thesis
          using a0 t0 e0 a1 t1 e1 a2 t2 e2 g1 exhausted
            loop_final[of ks ds s2 d2 l2 "l0 @ [Sleep 2000] @ l1 @ [Sleep 4000]"] by simp
      qed
    qed
  qed
qed


lemma syncToSheets_order:
  assumes "syncToSheets ks ds = (r, ds', l)"
  shows "append_before_mark {} l"
proof (cases ks ds rule: syncToSheets_cases)
  case (first n ds' l0)
  then show ?thesis
    using assms sync_attempt_log(2)[OF first(1)] by simp
next
  case (second s0 l0 n ds' l1)
  then show ?thesis
    using assms sync_attempt_log(2)[OF second(1)] sync_attempt_log(2)[OF second(2)]
      sync_attempt_threw(3)[OF second(1)] by simp
next
  case (third s0 l0 s1 l1 n ds' l2)
  then show ?thesis
    using assms sync_attempt_log(2)[OF third(1)] sync_attempt_log(2)[OF third(2)]
      sync_attempt_log(2)[OF third(3)]
      sync_attempt_threw(3)[OF third(1)] sync_attempt_threw(3)[OF third(2)] by simp
next
  case (exhausted s0 l0 s1 l1 s2 l2)
  then show ?thesis
    using assms sync_attempt_log(2)[OF exhausted(1)] sync_attempt_log(2)[OF exhausted(2)]
      sync_attempt_log(2)[OF exhausted(3)]
      sync_attempt_threw(3)[OF exhausted(1)] sync_attempt_threw(3)[OF exhausted(2)] by simp
qed

lemma syncToSheets_append_fails:
  assumes "\<forall>n<3. fails (ks n) Append" and "syncToSheets ks ds = (r, ds', l)"
  shows "ds' = ds \<and> marked_ids l = []"
proof -
  have f: "fails (ks 0) Append" "fails (ks 1) Append" "fails (ks 2) Append"
    using assms(1) by simp_all
  show ?thesis
  proof (cases ks ds rule: syncToSheets_cases)
    case (first n d0 l0)
    then show ?thesis
      using assms(2) sync_attempt_append_fails(1,2)[OF f(1) first(1)] by simp
  next
    case (second s0 l0 n d1 l1)
    then show ?thesis
      using assms(2) sync_attempt_append_fails(1,2)[OF f(2) second(2)]
        sync_attempt_threw(2)[OF second(1)] by simp
  next
    case (third s0 l0 s1 l1 n d2 l2)
    then show ?thesis
      using assms(2) sync_attempt_append_fails(1,2)[OF f(3) third(3)]
        sync_attempt_threw(2)[OF third(1)] sync_attempt_threw(2)[OF third(2)] by simp
  next
    case (exhausted s0 l0 s1 l1 s2 l2)
    then show ?thesis
      using assms(2) sync_attempt_threw(2)[OF exhausted(1)]
        sync_attempt_threw(2)[OF exhausted(2)] sync_attempt_threw(2)[OF exhausted(3)] by simp
  qed
qed

lemma realtime_change_props:
  assumes "realtime_change k ch ds = (ds', l)"
  shows "append_before_mark {} l" and "fails k Append \<Longrightarrow> ds' = ds \<and> marked_ids l = []"
  using assms
  by (auto simp: realtime_change_def split: if_splits option.splits)

text \<open>
  Claim C7. In one attempt of the batch export, in a whole batch run with its
  retries, and in the real-time listener, every record that is marked synced was in
  a sheet append that succeeded earlier in the same log; and when the append call
  fails (in the run: in every attempt) the collection is left as it was and no record
  is marked.
\<close>

theorem C7_append_before_mark_synced:
  "(\<forall>r ds' l. sync_attempt k ds = (r, ds', l) \<longrightarrow>
       (\<forall>pre i post. l = pre @ MarkSynced i # post \<longrightarrow>
          (\<exists>ids. Appended ids \<in> set pre \<and> i \<in> set ids))
       \<and> (fails k Append \<longrightarrow> ds' = ds \<and> (\<forall>i. MarkSynced i \<notin> set l)))
   \<and> (\<forall>r ds' l. syncToSheets ks ds = (r, ds', l) \<longrightarrow>
       (\<forall>pre i post. l = pre @ MarkSynced i # post \<longrightarrow>
          (\<exists>ids. Appended ids \<in> set pre \<and> i \<in> set ids))
       \<and> ((\<forall>n<3. fails (ks n) Append) \<longrightarrow> ds' = ds \<and> (\<forall>i. MarkSynced i \<notin> set l)))
   \<and> (\<forall>ds' l. realtime_change k ch ds = (ds', l) \<longrightarrow>
       (\<forall>pre i post. l = pre @ MarkSynced i # post \<longrightarrow>
          (\<exists>ids. Appended ids \<in> set pre \<and> i \<in> set ids))
       \<and> (fails k Append \<longrightarrow> ds' = ds \<and> (\<forall>i. MarkSynced i \<notin> set l)))"
proof (intro conjI allI impI)
  fix r ds' l pre i post
  assume "sync_attempt k ds = (r, ds', l)" "l = pre @ MarkSynced i # post"
  then show "\<exists>ids. Appended ids \<in> set pre \<and> i \<in> set ids"
    using sync_attempt_log(2) append_before_mark_split by blast
next
  fix r ds' l
  assume "sync_attempt k ds = (r, ds', l)" "fails k Append"
  then show "ds' = ds"
    using sync_attempt_append_fails(1) by blast
next
  fix r ds' l i
  assume "sync_attempt k ds = (r, ds', l)" "fails k Append"
  then have "marked_ids l = []"
    using sync_attempt_append_fails(2) by blast
  then show "MarkSynced i \<notin> set l"
    by (simp add: marked_ids_set)
next
  fix r ds' l pre i post
  assume "syncToSheets ks ds = (r, ds', l)" "l = pre @ MarkSynced i # post"
  then show "\<exists>ids. Appended ids \<in> set pre \<and> i \<in> set ids"
    using syncToSheets_order append_before_mark_split by blast
next
  fix r ds' l
  assume "syncToSheets ks ds = (r, ds', l)" "\<forall>n<3. fails (ks n) Append"
  then show "ds' = ds"
    using syncToSheets_append_fails by blast
next
  fix r ds' l i
  assume "syncToSheets ks ds = (r, ds', l)" "\<forall>n<3. fails (ks n) Append"
  then have "marked_ids l = []"
    using syncToSheets_append_fails by blast
  then show "MarkSynced i \<notin> set l"
    by (simp add: marked_ids_set)
next
  fix ds' l pre i post
  assume "realtime_change k ch ds = (ds', l)" "l = pre @ MarkSynced i # post"
  then show "\<exists>ids. Appended ids \<in> set pre \<and> i \<in> set ids"
    using realtime_change_props(1) append_before_mark_split by blast
next
  fix ds' l
  assume "realtime_change k ch ds = (ds', l)" "fails k Append"
  then show "ds' = ds"
    using realtime_change_props(2) by blast
next
  fix ds' l i
  assume "realtime_change k ch ds = (ds', l)" "fails k Append"
  then have "marked_ids l = []"
    using realtime_change_props(2) by blast
  then show "MarkSynced i \<notin> set l"
    by (simp add: marked_ids_set)
qed

theorem C7_append_before_mark_synced_witness:
  "fails sink_quota Append
   \<and> sync_attempt sink_quota export_store =
       (Threw Append, export_store,
        [ApiCall Init, ApiCall GetSpreadsheet, ApiCall GetHeader,
         Selected [Oid 2, Oid 1], ApiCall Append])
   \<and> syncToSheets ks_retry export_store =
       (Returned 2, export_done,
        [ApiCall Init, ApiCall GetSpreadsheet, ApiCall GetHeader,
         Selected [Oid 2, Oid 1], ApiCall Append, Sleep 2000,
         ApiCall Init, ApiCall GetSpreadsheet, ApiCall GetHeader,
         Selected [Oid 2, Oid 1], ApiCall Append,
         Appended [Oid 2, Oid 1]]
        @ MarkSynced (Oid 2) # [MarkSynced (Oid 1)])
   \<and> (\<exists>ids. Appended ids \<in> set
        [ApiCall Init, ApiCall GetSpreadsheet, ApiCall GetHeader,
         Selected [Oid 2, Oid 1], ApiCall Append, Sleep 2000,
         ApiCall Init, ApiCall GetSpreadsheet, ApiCall GetHeader,
         Selected [Oid 2, Oid 1], ApiCall Append,
         Appended [Oid 2, Oid 1]]
        \<and> Oid 2 \<in> set ids)
   \<and> realtime_change sink_quota ch_a export_store
       = (export_store, [ApiCall Init, ApiCall Append])"
proof -
  have f: "fails sink_quota Append"
    by (simp add: sink_quota_def)
  have a: "sync_attempt sink_quota export_store =
       (Threw Append, export_store,
        [ApiCall Init, ApiCall GetSpreadsheet, ApiCall GetHeader,
         Selected [Oid 2, Oid 1], ApiCall Append])"
    by code_simp
  have b: "syncToSheets ks_retry export_store =
       (Returned 2, export_done,
        [ApiCall Init, ApiCall GetSpreadsheet, ApiCall GetHeader,
         Selected [Oid 2, Oid 1], ApiCall Append, Sleep 2000,
         ApiCall Init, ApiCall GetSpreadsheet, ApiCall GetHeader,
         Selected [Oid 2, Oid 1], ApiCall Append,
         Appended [Oid 2, Oid 1]]
        @ MarkSynced (Oid 2) # [MarkSynced (Oid 1)])"
    by code_simp
  have c: "realtime_change sink_quota ch_a export_store
       = (export_store, [ApiCall Init, ApiCall Append])"
    by code_simp
  note t = C7_append_before_mark_synced[of sink_quota export_store ks_retry ch_a]
  from t b have o: "\<exists>ids. Appended ids \<in> set
        [ApiCall Init, ApiCall GetSpreadsheet, ApiCall GetHeader,
         Selected [Oid 2, Oid 1], ApiCall Append, Sleep 2000,
         ApiCall Init, ApiCall GetSpreadsheet, ApiCall GetHeader,
         Selected [Oid 2, Oid 1], ApiCall Append,
         Appended [Oid 2, Oid 1]]
        \<and> Oid 2 \<in> set ids"
    by blast
  show ?thesis
    using f a b o c by blast
qed


lemma count_init_schedule:
  "filter (\<lambda>e. e = ApiCall Init) l = filter (\<lambda>e. e = ApiCall Init) (schedule l)"
  by (induction l rule: schedule.induct) simp_all

lemma attempt_inits:
  assumes "sync_attempt k ds = (r, ds', l)"
  shows "length (filter (\<lambda>e. e = ApiCall Init) l) = 1"
  using count_init_schedule[of l] sync_attempt_log(1)[OF assms] by simp

text \<open>
  Claim C8. A batch run makes at most three attempts. It returns at the first
  attempt that succeeds; after failed attempt 1 it waits 2000 ms and after failed
  attempt 2 it waits 4000 ms before the next attempt; when the third attempt fails
  too it raises the final failure with that attempt's error, without a further wait or
  attempt, and the collection is unchanged.
\<close>

theorem C8_retry_budget:
  "(\<forall>n. attempt_outcome ks 0 ds = Done n \<longrightarrow>
        fst (syncToSheets ks ds) = Returned n
        \<and> schedule (snd (snd (syncToSheets ks ds))) = [ApiCall Init])
   \<and> (\<forall>s0 n. attempt_outcome ks 0 ds = Threw s0 \<and> attempt_outcome ks 1 ds = Done n \<longrightarrow>
        fst (syncToSheets ks ds) = Returned n
        \<and> schedule (snd (snd (syncToSheets ks ds)))
            = [ApiCall Init, Sleep (1 * 2000), ApiCall Init])
   \<and> (\<forall>s0 s1 n. attempt_outcome ks 0 ds = Threw s0 \<and> attempt_outcome ks 1 ds = Threw s1
          \<and> attempt_outcome ks 2 ds = Done n \<longrightarrow>
        fst (syncToSheets ks ds) = Returned n
        \<and> schedule (snd (snd (syncToSheets ks ds)))
            = [ApiCall Init, Sleep (1 * 2000), ApiCall Init, Sleep (2 * 2000), ApiCall Init])
   \<and> (\<forall>s0 s1 s2. attempt_outcome ks 0 ds = Threw s0 \<and> attempt_outcome ks 1 ds = Threw s1
          \<and> attempt_outcome ks 2 ds = Threw s2 \<longrightarrow>
        fst (syncToSheets ks ds) = FinalSyncFailure s2
        \<and> fst (snd (syncToSheets ks ds)) = ds
        \<and> schedule (snd (snd (syncToSheets ks ds)))
            = [ApiCall Init, Sleep (1 * 2000), ApiCall Init, Sleep (2 * 2000), ApiCall Init])
   \<and> length (filter (\<lambda>e. e = ApiCall Init) (snd (snd (syncToSheets ks ds)))) \<le> 3"
proof (cases ks ds rule: syncToSheets_cases)
  case (first n ds' l0)
  then show ?thesis
    using sync_attempt_log(1)[OF first(1)] attempt_inits[OF first(1)]
    by (simp add: attempt_outcome_def)
next
  case (second s0 l0 n ds' l1)
  then show ?thesis
    using sync_attempt_log(1)[OF second(1)] sync_attempt_log(1)[OF second(2)]
      attempt_inits[OF second(1)] attempt_inits[OF second(2)]
    by (simp add: attempt_outcome_def)
next
  case (third s0 l0 s1 l1 n ds' l2)
  then show ?thesis
    using sync_attempt_log(1)[OF third(1)] sync_attempt_log(1)[OF third(2)]
      sync_attempt_log(1)[OF third(3)]
      attempt_inits[OF third(1)] attempt_inits[OF third(2)] attempt_inits[OF third(3)]
    by (simp add: attempt_outcome_def)
next
  case (exhausted s0 l0 s1 l1 s2 l2)
  then show ?thesis
    using sync_attempt_log(1)[OF exhausted(1)] sync_attempt_log(1)[OF exhausted(2)]
      sync_attempt_log(1)[OF exhausted(3)]
      attempt_inits[OF exhausted(1)] attempt_inits[OF exhausted(2)]
      attempt_inits[OF exhausted(3)]
    by (simp add: attempt_outcome_def)
qed

theorem C8_retry_budget_witness:
  "attempt_outcome ks_retry 0 export_store = Threw Append
   \<and> attempt_outcome ks_retry 1 export_store = Done 2
   \<and> fst (syncToSheets ks_retry export_store) = Returned 2
   \<and> schedule (snd (snd (syncToSheets ks_retry export_store)))
       = [ApiCall Init, Sleep 2000, ApiCall Init]
   \<and> attempt_outcome ks_down 0 export_store = Threw Init
   \<and> attempt_outcome ks_down 1 export_store = Threw Init
   \<and> attempt_outcome ks_down 2 export_store = Threw Init
   \<and> fst (syncToSheets ks_down export_store) = FinalSyncFailure Init
   \<and> fst (snd (syncToSheets ks_down export_store)) = export_store
   \<and> schedule (snd (snd (syncToSheets ks_down export_store)))
       = [ApiCall Init, Sleep 2000, ApiCall Init, Sleep 4000, ApiCall Init]"
proof -
  have r0: "attempt_outcome ks_retry 0 export_store = Threw Append" by code_simp
  have r1: "attempt_outcome ks_retry 1 export_store = Done 2" by code_simp
  have d0: "attempt_outcome ks_down 0 export_store = Threw Init" by code_simp
  have d1: "attempt_outcome ks_down 1 export_store = Threw Init" by code_simp
  have d2: "attempt_outcome ks_down 2 export_store = Threw Init" by code_simp
  have a: "fst (syncToSheets ks_retry export_store) = Returned 2
     \<and> schedule (snd (snd (syncToSheets ks_retry export_store)))
       = [ApiCall Init, Sleep 2000, ApiCall Init]"
    using C8_retry_budget[of ks_retry export_store] r0 r1 by simp
  have b: "fst (syncToSheets ks_down export_store) = FinalSyncFailure Init
   \<and> fst (snd (syncToSheets ks_down export_store)) = export_store
   \<and> schedule (snd (snd (syncToSheets ks_down export_store)))
       = [ApiCall Init, Sleep 2000, ApiCall Init, Sleep 4000, ApiCall Init]"
    using C8_retry_budget[of ks_down export_store] d0 d1 d2 by simp
  show ?thesis
    using r0 r1 d0 d1 d2 a b by blast
qed

section \<open>Invariants of the collection\<close>

lemma evolves_trans: "evolves b c \<Longrightarrow> evolves a b \<Longrightarrow> evolves a c"
  by (induction rule: evolves.induct) (auto intro: evolves.intros)

lemma evolves_update: "safe_update f \<Longrightarrow> evolves ds (findByIdAndUpdate i f ds)"
  by (rule evolves.updated[OF evolves.same])

lemma evolves_create:
  "phone_implies_engaged d \<Longrightarrow> create d ds = Inr ds' \<Longrightarrow> evolves ds ds'"
  by (auto simp: create_def intro: evolves.created[OF evolves.same] split: if_splits)

lemma length_findByIdAndUpdate [simp]: "length (findByIdAndUpdate i f ds) = length ds"
  by (induction ds) auto

lemma nth_findByIdAndUpdate:
  "n < length ds \<Longrightarrow>
     findByIdAndUpdate i f ds ! n = ds ! n \<or> findByIdAndUpdate i f ds ! n = f (ds ! n)"
proof (induction ds arbitrary: n)
  case Nil
  then show ?case by simp
next
  case (Cons d ds)
  then show ?case by (cases n) auto
qed

lemma set_findByIdAndUpdate:
  "d \<in> set (findByIdAndUpdate i f ds) \<Longrightarrow> d \<in> set ds \<or> d \<in> f ` set ds"
  by (induction ds) (auto split: if_splits)

lemma evolves_keeps:
  assumes "evolves ds ds'"
  shows "length ds \<le> length ds'
       \<and> (\<forall>n<length ds. d_id (ds' ! n) = d_id (ds ! n)
             \<and> (hasEngaged (ds ! n) \<longrightarrow> hasEngaged (ds' ! n)))"
  using assms
proof (induction rule: evolves.induct)
  case (same ds)
  then show ?case by simp
next
  case (updated ds ds1 f i)
  show ?case
  proof (intro conjI allI impI)
    show "length ds \<le> length (findByIdAndUpdate i f ds1)"
      using updated.IH by simp
  next
    fix n assume n: "n < length ds"
    then have n1: "n < length ds1" using updated.IH by simp
    from nth_findByIdAndUpdate[OF n1, of i f]
    show "d_id (findByIdAndUpdate i f ds1 ! n) = d_id (ds ! n)"
      using updated.IH updated.hyps(2) n by (auto simp: safe_update_def)
  next
    fix n assume n: "n < length ds" and h: "hasEngaged (ds ! n)"
    then have n1: "n < length ds1" using updated.IH by simp
    from nth_findByIdAndUpdate[OF n1, of i f]
    show "hasEngaged (findByIdAndUpdate i f ds1 ! n)"
      using updated.IH updated.hyps(2) n h by (auto simp: safe_update_def)
  qed
next
  case (created ds ds1 d)
  then show ?case by (auto simp: nth_append)
qed

lemma evolves_invariant:
  assumes "evolves ds ds'" and "\<forall>d\<in>set ds. phone_implies_engaged d"
  shows "\<forall>d\<in>set ds'. phone_implies_engaged d"
  using assms
proof (induction rule: evolves.induct)
  case (same ds)
  then show ?case by simp
next
  case (updated ds ds1 f i)
  show ?case
  proof
    fix d assume "d \<in> set (findByIdAndUpdate i f ds1)"
    then consider "d \<in> set ds1" | d0 where "d0 \<in> set ds1" "d = f d0"
      using set_findByIdAndUpdate by blast
    then show "phone_implies_engaged d"
    proof cases
      case 1
      then show ?thesis using updated.IH updated.prems by blast
    next
      case 2
      then have "phone_implies_engaged d0" using updated.IH updated.prems by blast
      then show ?thesis using updated.hyps(2) 2(2) by (simp add: safe_update_def)
    qed
  qed
next
  case (created ds ds1 d)
  then show ?case by auto
qed

subsection \<open>Each operation evolves the collection\<close>

lemma safe_ids: "safe_update (\<lambda>d. d\<lparr> contactId := a, conversationId := b, contactName := c \<rparr>)"
  by (simp add: safe_update_def phone_implies_engaged_def)

lemma safe_direct: "safe_update (\<lambda>d. d\<lparr> lastMessage := a, engagedAt := b \<rparr>)"
  by (simp add: safe_update_def phone_implies_engaged_def)

lemma safe_updateData: "safe_update (updateData e ev a)"
  by (simp add: safe_update_def phone_implies_engaged_def updateData_def)

lemma safe_mark: "safe_update (\<lambda>d. d\<lparr> syncedToSheets := True, lastSynced := Some t \<rparr>)"
  by (simp add: safe_update_def phone_implies_engaged_def)

lemma evolves_gallabox: "evolves (store m) (store (gallabox_id_match e ev m))"
  by (auto simp: gallabox_id_match_def Let_def intro: evolves.same evolves_update safe_ids
        split: option.splits)

lemma store_context [simp]: "store (context_match ev m) = store m"
  by (auto simp: context_match_def split: option.splits token.splits)

lemma store_phone [simp]: "store (phone_match ev m) = store m"
  by (auto simp: phone_match_def Let_def split: option.splits)

lemma evolves_direct: "evolves (store m) (store (chain_state (direct_handling e ev m)))"
proof (cases "truthy_id (sessionId m)")
  case True
  then show ?thesis
    by (simp add: direct_handling_def chain_state_def evolves.same)
next
  case nomatch: False
  show ?thesis
  proof (cases "conversationId_of ev")
    case None
    then show ?thesis
      using nomatch by (simp add: direct_handling_def chain_state_def evolves.same)
  next
    case (Some cv)
    show ?thesis
    proof (cases "findOne (\<lambda>d. conversationId d = Some cv \<and> source d = ''direct_message'')
                    (store m)")
      case found: (Some r)
      show ?thesis
        using nomatch Some found
        by (simp add: direct_handling_def chain_state_def Let_def evolves_update safe_direct)
    next
      case None
      show ?thesis
      proof (cases "STORE_DIRECT_MESSAGES e")
        case False
        then show ?thesis
          using nomatch Some None
          by (simp add: direct_handling_def chain_state_def Let_def evolves.same)
      next
        case True
        define newdoc where "newdoc = (\<lambda>i.
          (spread_utm i (utmData m) (now e))
             \<lparr> timestamp := now e, hasEngaged := True,
               phoneNumber := Some (normalizedPhone ev),
               lastMessage := Some (messageContent ev),
               engagedAt := Some (now e), syncedToSheets := False,
               contactId := contactId_of ev,
               conversationId := conversationId_of ev,
               contactName := contactName_of ev \<rparr>)"
        have p: "phone_implies_engaged (newdoc i)" for i
          by (simp add: newdoc_def phone_implies_engaged_def)
        have "store (chain_state (direct_handling e ev m)) =
            (case document_id
                    (utm_id (Some (Sid (''direct-'' @ dec_int (now e) @ ''-'' @ uuid8 e)))
                       (utmData m)) (store m) of
               Inl err \<Rightarrow> store m
             | Inr i \<Rightarrow> (case create (newdoc i) (store m) of
                          Inl err \<Rightarrow> store m | Inr ds \<Rightarrow> ds))"
          using nomatch Some None True
          by (simp add: direct_handling_def chain_state_def Let_def newdoc_def
                split: sum.splits)
        then show ?thesis
          using evolves_create[OF p] by (auto simp: evolves.same split: sum.splits)
      qed
    qed
  qed
qed

lemma evolves_engagement:
  "evolves (store m) (store (chain_state (engagement_update e ev m)))"
proof (cases "attribution m \<noteq> ''new_direct'' \<and> sessionId m \<noteq> Some (Sid ''not_stored'')")
  case False
  then show ?thesis
    by (auto simp: engagement_update_def chain_state_def evolves.same)
next
  case run: True
  show ?thesis
  proof (cases "findById (sessionId m) (store m)")
    case (Inl err)
    then show ?thesis
      using run by (simp add: engagement_update_def chain_state_def evolves.same)
  next
    case (Inr found)
    show ?thesis
    proof (cases found)
      case (Some d)
      then show ?thesis
        using run Inr
        by (simp add: engagement_update_def chain_state_def Let_def evolves_update
              safe_updateData)
    next
      case None
      define newdoc where "newdoc = (\<lambda>i.
         (updateData e ev (attribution m) (spread_utm i (utmData m) (now e)))
           \<lparr> timestamp := now e \<rparr>)"
      have p: "phone_implies_engaged (newdoc i)" for i
        by (simp add: newdoc_def phone_implies_engaged_def updateData_def)
      have "store (chain_state (engagement_update e ev m)) =
          (case document_id (utm_id (sessionId m) (utmData m)) (store m) of
             Inl err \<Rightarrow> store m
           | Inr i \<Rightarrow> (case create (newdoc i) (store m) of
                        Inl err \<Rightarrow> store m | Inr ds \<Rightarrow> ds))"
        using run Inr None
        by (simp add: engagement_update_def chain_state_def Let_def newdoc_def
              split: sum.splits)
      then show ?thesis
        using evolves_create[OF p] by (auto simp: evolves.same split: sum.splits)
    qed
  qed
qed

lemma evolves_chain: "evolves ds (store (chain_state (strategy_chain e ev ds)))"
proof -
  have "evolves (store (initial ds))
          (store (gallabox_id_match e ev (context_match ev (initial ds))))"
    using evolves_gallabox[of "context_match ev (initial ds)" e ev] by simp
  then have "evolves ds (store (phone_match ev
                (gallabox_id_match e ev (context_match ev (initial ds)))))"
    by (simp add: initial_def)
  then show ?thesis
    unfolding strategy_chain_def
    using evolves_direct evolves_trans by blast
qed

lemma evolves_webhook: "evolves ds (final_store (gallabox_webhook e ev ds))"
proof -
  have c: "evolves ds (store (chain_state (strategy_chain e ev ds)))"
    by (rule evolves_chain)
  show ?thesis
  proof (cases "strategy_chain e ev ds")
    case (Inl m)
    then show ?thesis
      using c by (auto simp: gallabox_webhook_def chain_state_def evolves.same)
  next
    case (Inr m)
    then have cm: "evolves ds (store m)"
      using c by (simp add: chain_state_def)
    have "evolves ds (store (chain_state (engagement_update e ev m)))"
      using evolves_engagement cm evolves_trans by blast
    then show ?thesis
      using Inr by (auto simp: gallabox_webhook_def chain_state_def evolves.same
          split: sum.splits)
  qed
qed

lemma evolves_click: "evolves ds (snd (store_click t rq ds))"
proof -
  define newdoc where "newdoc = (\<lambda>i.
    (schema_default i t)
      \<lparr> source := opt_default (js_or (p_source rq) (null_if_falsy (r_source rq)))
                   ''facebook'',
        medium := opt_default (js_or (p_medium rq) (null_if_falsy (r_medium rq)))
                   ''fb_ads'',
        campaign := opt_default (js_or (p_campaign rq) (null_if_falsy (r_campaign rq)))
                     ''unknown'',
        content := opt_default (js_or (p_content rq) (null_if_falsy (r_content rq)))
                    ''unknown'',
        placement := opt_default (js_or (p_placement rq) (null_if_falsy (r_placement rq)))
                      ''unknown'',
        click_time := t, timestamp := t, hasEngaged := False,
        syncedToSheets := False \<rparr>)"
  have p: "phone_implies_engaged (newdoc i)" for i
    by (simp add: newdoc_def phone_implies_engaged_def schema_default_def)
  have "snd (store_click t rq ds) = ds
        \<or> (\<exists>i. create (newdoc i) ds = Inr (snd (store_click t rq ds)))"
    by (auto simp: store_click_def Let_def newdoc_def split: sum.splits option.splits)
  then show ?thesis
    using evolves_create[OF p] by (auto simp: evolves.same)
qed

lemma evolves_marks: "evolves ds (foldl (mark_synced t) ds ids)"
proof (induction ids rule: rev_induct)
  case Nil
  then show ?case by (simp add: evolves.same)
next
  case (snoc i ids)
  then show ?case
    by (simp add: mark_synced_def evolves.updated safe_mark)
qed

lemma evolves_attempt:
  assumes "sync_attempt k ds = (r, ds', l)"
  shows "evolves ds ds'"
  using assms evolves_marks[of ds "s_now k" "map d_id (select_batch ds)"]
  by (auto simp: sync_attempt_def api_def Let_def evolves.same split: if_splits)

lemma evolves_batch: "evolves ds (fst (snd (syncToSheets ks ds)))"
  by (cases ks ds rule: syncToSheets_cases) (auto intro: evolves_attempt evolves.same)

lemma evolves_realtime: "evolves ds (fst (realtime_change k ch ds))"
  by (auto simp: realtime_change_def mark_synced_def evolves.same evolves_update safe_mark
        split: option.splits)

lemma step_evolves: "step ds ds' \<Longrightarrow> evolves ds ds'"
  by (induction rule: step.induct)
     (simp_all add: evolves_click evolves_webhook evolves_batch evolves_realtime)

lemma steps_evolve: "step\<^sup>*\<^sup>* ds ds' \<Longrightarrow> evolves ds ds'"
  by (induction rule: rtranclp_induct) (auto intro: evolves.same evolves_trans step_evolves)


text \<open>
  Claim C5. No operation of the system (click ingestion, the message webhook, a
  batch export run, the real-time export listener) and no sequence of them takes a
  record's \<open>hasEngaged\<close> from true back to false: a record that is engaged keeps
  its position and its id and stays engaged, so \<open>hasEngaged\<close> goes from false to
  true at most once.
\<close>

theorem C5_hasEngaged_never_regresses:
  assumes "step\<^sup>*\<^sup>* ds ds'" and "n < length ds" and "hasEngaged (ds ! n)"
  shows "n < length ds' \<and> d_id (ds' ! n) = d_id (ds ! n) \<and> hasEngaged (ds' ! n)"
  using evolves_keeps[OF steps_evolve[OF assms(1)]] assms(2,3) by auto

theorem C5_hasEngaged_never_regresses_witness:
  "step\<^sup>*\<^sup>* [engaged1] (final_store (gallabox_webhook E1 EV_tok_only [engaged1]))
   \<and> 0 < length [engaged1]
   \<and> hasEngaged ([engaged1] ! 0)
   \<and> 0 < length (final_store (gallabox_webhook E1 EV_tok_only [engaged1]))
   \<and> d_id (final_store (gallabox_webhook E1 EV_tok_only [engaged1]) ! 0) = Oid 1
   \<and> hasEngaged (final_store (gallabox_webhook E1 EV_tok_only [engaged1]) ! 0)"
proof -
  have s: "step\<^sup>*\<^sup>* [engaged1] (final_store (gallabox_webhook E1 EV_tok_only [engaged1]))"
    by (rule r_into_rtranclp) (rule step.message)
  have l: "0 < length [engaged1]" by simp
  have h: "hasEngaged ([engaged1] ! 0)" by (simp add: engaged1_def)
  have i: "d_id ([engaged1] ! 0) = Oid 1"
    by (simp add: engaged1_def click1_def schema_default_def)
  show ?thesis
    using C5_hasEngaged_never_regresses[OF s l h] s l h i by simp
qed

lemma reachable_invariant:
  assumes "reachable ds"
  shows "\<forall>d\<in>set ds. phone_implies_engaged d"
  using evolves_invariant[OF steps_evolve[OF assms[unfolded reachable_def]]] by simp

text \<open>No reachable collection holds a record that the phone query selects.\<close>

lemma phone_query_finds_nothing:
  assumes "reachable ds"
  shows "findNewest (phone_query p) ds = None"
proof (cases "findNewest (phone_query p) ds")
  case None
  then show ?thesis .
next
  case (Some d)
  then have "d \<in> set ds" "phone_query p d"
    using findNewest_mem by blast+
  then show ?thesis
    using reachable_invariant[OF assms]
    by (auto simp: phone_query_def phone_implies_engaged_def)
qed

text \<open>
  Claim C2. In every collection reachable from the empty one by the system's
  operations, a record whose source is \<open>direct_message\<close> does not satisfy the
  filter of the Priority-3 phone query and is not the record that query returns,
  whatever the normalized phone of the event.
\<close>

theorem C2_phone_match_excludes_direct_messages:
  assumes "reachable ds" and "d \<in> set ds" and "source d = ''direct_message''"
  shows "\<not> phone_query p d \<and> findNewest (phone_query p) ds \<noteq> Some d"
proof -
  have "phone_implies_engaged d"
    using reachable_invariant[OF assms(1)] assms(2) by blast
  then have "\<not> phone_query p d"
    by (auto simp: phone_query_def phone_implies_engaged_def)
  then show ?thesis
    using findNewest_mem by blast
qed

theorem C2_phone_match_excludes_direct_messages_witness:
  "reachable [direct0]
   \<and> direct0 \<in> set [direct0]
   \<and> source direct0 = ''direct_message''
   \<and> phoneNumber direct0 = Some ''919876543210''
   \<and> \<not> phone_query ''919876543210'' direct0
   \<and> findNewest (phone_query ''919876543210'') [direct0] \<noteq> Some direct0"
proof -
  have e: "final_store (gallabox_webhook E1 EV_bare []) = [direct0]"
    by code_simp
  have "step [] (final_store (gallabox_webhook E1 EV_bare []))"
    by (rule step.message)
  then have r: "reachable [direct0]"
    unfolding reachable_def e by (rule r_into_rtranclp)
  have m: "direct0 \<in> set [direct0]" by simp
  have s: "source direct0 = ''direct_message''" by (simp add: direct0_def)
  have p: "phoneNumber direct0 = Some ''919876543210''" by (simp add: direct0_def)
  show ?thesis
    using C2_phone_match_excludes_direct_messages[OF r m s, of "''919876543210''"] r m s p
    by blast
qed

end
